theory Spec2Isabelle
  imports Main
begin

section \<open>Data model\<close>

text \<open>
  The two source files are the keyboard and mouse handlers of the block events module
  (\<^verbatim>\<open>BlockEvents\<close>) and the drag-and-drop module (\<^verbatim>\<open>DragNDrop\<close>). Both reach
  every collaborator through \<^verbatim>\<open>this.Editor\<close>; the embedding passes one record,
  the editor state, through each handler and returns it updated.
\<close>

text \<open>
  \<^verbatim>\<open>event.keyCode\<close> is only ever compared with the named constants of
  \<^verbatim>\<open>_.keyCodes\<close>, so a key code is the constant it equals, or \<open>OTHER\<close>.
  \<open>key\<close> is the character the key produces and \<open>code\<close> names the physical key.
\<close>

datatype keyCode = BACKSPACE | TAB | ENTER | LEFT | UP | RIGHT | DOWN | DELETE | OTHER

record keyboardEvent =
  keyCode :: keyCode
  shiftKey :: bool
  ctrlKey :: bool
  metaKey :: bool
  altKey :: bool
  key :: string
  code :: string

text \<open>
  A DOM node is seen only through the block that owns it: \<open>target\<close> is the identity of
  the block whose holder contains the event target, \<open>None\<close> for a node outside every
  holder. \<open>dataTransfer\<close> is the payload of the drag.
\<close>

record dragEvent =
  target :: "nat option"
  dataTransfer :: string

text \<open>
  A block, as far as the handlers read it. An input of a block is named by its position
  in \<open>inputs\<close>; \<open>currentInput\<close> is \<^verbatim>\<open>block.currentInput\<close>, \<open>None\<close> for
  \<^verbatim>\<open>undefined\<close>.
\<close>

record block =
  bid :: nat
  toolName :: string
  inputs :: "string list"
  currentInput :: "nat option"
  isLineBreaksEnabled :: bool
  hasMedia :: bool
  dropTarget :: bool

datatype position = START | END | DEFAULT

text \<open>Every call that leaves the two modules, in the order it is made.\<close>

datatype call =
    PreventDefault
  | ToolbarClose
  | ToolbarMoveAndOpen "nat option"
  | ToolboxOpen
  | BlockSettingsOpen
  | InlineToolbarClose
  | CloseAllToolbars
  | ClearSelection
  | ToggleBlockSelectedState bool
  | CaretSetToBlock nat position
  | CaretFocus nat nat bool
  | CaretNavigateNext bool
  | CaretNavigatePrevious bool
  | InsertContentAtCaretPosition string
  | DelayUpdateCurrentInput
  | CheckEmptiness
  | ExecCommandDelete
  | ProcessDataTransfer string bool

text \<open>
  The state that the handlers read and write through \<^verbatim>\<open>this.Editor\<close>:
  \<^item> the Block Sequence Store: \<open>blocks\<close>, \<open>currentBlockIndex\<close> (\<open>-1\<close> when no block
    is current), the next free identity and the default block type;
  \<^item> the selection as \<^verbatim>\<open>SelectionUtils\<close> reports it: the caret as (identity of the
    block, input, offset), \<^verbatim>\<open>isCollapsed\<close> and \<^verbatim>\<open>isAtEditor\<close>;
  \<^item> the flags \<^verbatim>\<open>opened\<close> of the toolbar, the toolbox, the block settings and the
    inline toolbar, the block the toolbar stands over, and
    \<^verbatim>\<open>UI.someFlipperButtonFocused\<close>;
  \<^item> the identities of the blocks of the cross-block selection;
  \<^item> what the handlers take from their environment: \<^verbatim>\<open>this.isRtl\<close>,
    \<^verbatim>\<open>_.isIosDevice\<close> and the table \<^verbatim>\<open>Flipper.usedKeys\<close>, none of them defined
    in the source files and each a parameter here;
  \<^item> \<^verbatim>\<open>isStartedAtEditor\<close>, the private field of \<^verbatim>\<open>DragNDrop\<close>;
  \<^item> the calls made so far.
\<close>

record editor =
  blocks :: "block list"
  currentBlockIndex :: int
  nextId :: nat
  defaultBlock :: string
  caret :: "(nat \<times> nat \<times> nat) option"
  isCollapsed :: bool
  isAtEditor :: bool
  toolbarOpened :: bool
  toolbarBlock :: "nat option"
  toolboxOpened :: bool
  blockSettingsOpened :: bool
  inlineToolbarOpened :: bool
  someFlipperButtonFocused :: bool
  selectedBlocks :: "nat list"
  isRtl :: bool
  isIosDevice :: bool
  usedKeys :: "keyCode list"
  isStartedAtEditor :: bool
  calls :: "call list"

text \<open>
  A JavaScript handler either returns or throws; what it has written before the throw
  stays written, so both outcomes carry the state.
\<close>

datatype fault = TypeError | SplitWithoutCaret

datatype outcome = Returned editor | Threw fault editor

definition stateOf :: "outcome \<Rightarrow> editor" where
  "stateOf r = (case r of Returned st \<Rightarrow> st | Threw f st \<Rightarrow> st)"

definition emit :: "call \<Rightarrow> editor \<Rightarrow> editor" where
  "emit c st = st\<lparr>calls := calls st @ [c]\<rparr>"

section \<open>Block\<close>

text \<open>
  The class \<^verbatim>\<open>Block\<close> is not among the source files; what the handlers read of a
  block is defined here from the data model of the specification.
\<close>

text \<open>
  Modelled from the spec: the class \<^verbatim>\<open>Block\<close> is missing. The content of a block
  is the text of its inputs, "ordered first-to-last".
\<close>

definition content :: "block \<Rightarrow> string" where
  "content b = concat (inputs b)"

text \<open>
  Modelled from the spec: the getter \<^verbatim>\<open>Block.isEmpty\<close> is missing. It is "an 'is
  empty' predicate over its inputs": a block is empty when none of its inputs holds text.
\<close>

definition isEmpty :: "block \<Rightarrow> bool" where
  "isEmpty b = (content b = [])"

text \<open>
  Modelled from the spec: the getter \<^verbatim>\<open>Block.firstInput\<close> is missing. The inputs
  are "ordered first-to-last"; a block without inputs has no first input.
\<close>

definition firstInput :: "block \<Rightarrow> nat option" where
  "firstInput b = (if inputs b = [] then None else Some 0)"

text \<open>
  Modelled from the spec: the getter \<^verbatim>\<open>Block.lastInput\<close> is missing. The inputs
  are "ordered first-to-last"; a block without inputs has no last input.
\<close>

definition lastInput :: "block \<Rightarrow> nat option" where
  "lastInput b = (if inputs b = [] then None else Some (length (inputs b) - 1))"

section \<open>Caret/Selection Probe\<close>

text \<open>
  The caret position is "(block index, input index within block, offset within input's
  text)"; the block is named in \<open>caret\<close> by its identity, which survives insertions
  before it.
\<close>

text \<open>
  Modelled from the spec: \<^verbatim>\<open>isCaretAtStartOfInput\<close> of \<^verbatim>\<open>utils/caret\<close> is
  missing. The probes are "pure boolean predicates over the active text cursor and an
  identified input region", asking "is caret at logical start/end of this input", and
  "absence of an active caret is a valid false".
\<close>

definition isCaretAtStartOfInput :: "editor \<Rightarrow> block \<Rightarrow> nat option \<Rightarrow> bool" where
  "isCaretAtStartOfInput st b input =
     (case input of
        None \<Rightarrow> False
      | Some i \<Rightarrow> i < length (inputs b) \<and> caret st = Some (bid b, i, 0))"

text \<open>
  Modelled from the spec: \<^verbatim>\<open>isCaretAtEndOfInput\<close> of \<^verbatim>\<open>utils/caret\<close> is
  missing. It is the same probe for the logical end of the text of the input.
\<close>

definition isCaretAtEndOfInput :: "editor \<Rightarrow> block \<Rightarrow> nat option \<Rightarrow> bool" where
  "isCaretAtEndOfInput st b input =
     (case input of
        None \<Rightarrow> False
      | Some i \<Rightarrow> i < length (inputs b) \<and> caret st = Some (bid b, i, length (inputs b ! i)))"

section \<open>Block Sequence Store\<close>

text \<open>
  The module \<^verbatim>\<open>BlockManager\<close> is not among the source files. \<open>None\<close> stands for
  both \<^verbatim>\<open>undefined\<close> and \<^verbatim>\<open>null\<close>.
\<close>

text \<open>
  Modelled from the spec: indexing of \<^verbatim>\<open>BlockManager.blocks\<close> is missing. "Indices
  are contiguous and zero-based"; outside them there is no block.
\<close>

definition blockAt :: "editor \<Rightarrow> int \<Rightarrow> block option" where
  "blockAt st i =
     (if 0 \<le> i \<and> i < int (length (blocks st)) then Some (blocks st ! nat i) else None)"

text \<open>
  Modelled from the spec: the getter \<^verbatim>\<open>BlockManager.currentBlock\<close> is missing.
  \<^verbatim>\<open>currentBlock\<close>, \<^verbatim>\<open>previousBlock\<close> and \<^verbatim>\<open>nextBlock\<close> "return the block at
  current index \<plusminus> 1, or a null/absent value at sequence boundaries".
\<close>

definition currentBlock :: "editor \<Rightarrow> block option" where
  "currentBlock st = blockAt st (currentBlockIndex st)"

text \<open>
  Modelled from the spec: the getter \<^verbatim>\<open>BlockManager.previousBlock\<close> is missing; it
  is the block at the current index minus one.
\<close>

definition previousBlock :: "editor \<Rightarrow> block option" where
  "previousBlock st = blockAt st (currentBlockIndex st - 1)"

text \<open>
  Modelled from the spec: the getter \<^verbatim>\<open>BlockManager.nextBlock\<close> is missing; it is
  the block at the current index plus one.
\<close>

definition nextBlock :: "editor \<Rightarrow> block option" where
  "nextBlock st = blockAt st (currentBlockIndex st + 1)"

text \<open>
  Modelled from the spec: the getter \<^verbatim>\<open>BlockManager.lastBlock\<close> is missing; "the
  last block" is the block at the last index.
\<close>

definition lastBlock :: "editor \<Rightarrow> block option" where
  "lastBlock st = blockAt st (int (length (blocks st)) - 1)"

text \<open>
  Modelled from the spec: the lookup of a block by reference is missing. Blocks are
  "unique by identity"; the position of a block is the first one that holds its identity.
\<close>

fun indexOf :: "block list \<Rightarrow> nat \<Rightarrow> nat option" where
  "indexOf [] n = None"
| "indexOf (b # bs) n =
     (if bid b = n then Some 0 else map_option Suc (indexOf bs n))"

text \<open>
  Modelled from the spec: \<^verbatim>\<open>BlockManager.getBlockByChildNode\<close> is missing. It and
  \<^verbatim>\<open>setCurrentBlockByChildNode\<close> "map a DOM-level event target back to its owning
  Block".
\<close>

definition getBlockByChildNode :: "editor \<Rightarrow> nat option \<Rightarrow> block option" where
  "getBlockByChildNode st node =
     (case node of
        None \<Rightarrow> None
      | Some n \<Rightarrow> map_option (\<lambda>k. blocks st ! k) (indexOf (blocks st) n))"

text \<open>
  Modelled from the spec: \<^verbatim>\<open>BlockManager.setCurrentBlockByChildNode\<close> is missing.
  It "also sets that block as current and returns it, or returns a null value if no block
  owns the node".
\<close>

definition setCurrentBlockByChildNode :: "editor \<Rightarrow> nat option \<Rightarrow> block option \<times> editor" where
  "setCurrentBlockByChildNode st node =
     (case node of
        None \<Rightarrow> (None, st)
      | Some n \<Rightarrow>
          (case indexOf (blocks st) n of
             None \<Rightarrow> (None, st)
           | Some k \<Rightarrow> (Some (blocks st ! k), st\<lparr>currentBlockIndex := int k\<rparr>)))"

text \<open>
  Modelled from the spec: the composition of a block is missing. A "new empty
  default-type block" has the default type, one input without text, none of the flags
  and an identity not yet in use.
\<close>

definition composeDefault :: "editor \<Rightarrow> block" where
  "composeDefault st =
     \<lparr>bid = nextId st, toolName = defaultBlock st, inputs = [''''], currentInput = None,
      isLineBreaksEnabled = False, hasMedia = False, dropTarget = False\<rparr>"

text \<open>
  Modelled from the spec: \<^verbatim>\<open>BlockManager.insertDefaultBlockAtIndex\<close> is missing.
  \<^verbatim>\<open>insertDefaultBlockAtIndex(index, setCurrent?)\<close> "inserts a new empty
  default-type block at index, shifting subsequent blocks; returns the new block". The current block is one of the shifted blocks when the index is not after it,
  and its index shifts with it.
\<close>

definition insertDefaultBlockAtIndex :: "editor \<Rightarrow> int \<Rightarrow> bool \<Rightarrow> block \<times> editor" where
  "insertDefaultBlockAtIndex st index setCurrent =
     (let b = composeDefault st;
          k = nat index;
          cur = currentBlockIndex st
      in (b, st\<lparr>blocks := take k (blocks st) @ [b] @ drop k (blocks st),
                nextId := Suc (nextId st),
                currentBlockIndex :=
                  (if setCurrent then index else if index \<le> cur then cur + 1 else cur)\<rparr>))"

text \<open>
  Modelled from the spec: \<^verbatim>\<open>BlockManager.removeBlock\<close> is missing.
  \<^verbatim>\<open>removeBlock(block)\<close> "removes a block; if this empties
  the sequence, the Store must auto-insert one default block so the sequence is never
  empty; updates current index to a defined neighbor". The neighbour is the block before
  the removed one when the removed block is not after the current one, and the first
  block when the first block is removed.
\<close>

definition removeBlock :: "editor \<Rightarrow> block \<Rightarrow> editor" where
  "removeBlock st b =
     (case indexOf (blocks st) (bid b) of
        None \<Rightarrow> st
      | Some k \<Rightarrow>
          (let bs = take k (blocks st) @ drop (Suc k) (blocks st);
               cur = currentBlockIndex st;
               cur' = (if int k \<le> cur then cur - 1 else cur)
           in if bs = []
              then st\<lparr>blocks := [composeDefault st], nextId := Suc (nextId st),
                      currentBlockIndex := 0\<rparr>
              else st\<lparr>blocks := bs,
                      currentBlockIndex := (if k = 0 then 0 else cur')\<rparr>))"

text \<open>
  Modelled from the spec: the merge of the target tool is missing. The merge "appends
  source's content to target", at the end of the trailing input of the target.
\<close>

definition appendContent :: "block \<Rightarrow> string \<Rightarrow> block" where
  "appendContent t s = t\<lparr>inputs := butlast (inputs t) @ [last (inputs t) @ s]\<rparr>"

text \<open>
  Modelled from the spec: \<^verbatim>\<open>BlockManager.mergeBlocks\<close> is missing; it is named
  \<open>storeMergeBlocks\<close> here, beside the private \<^verbatim>\<open>mergeBlocks\<close> of the handlers.
  \<^verbatim>\<open>mergeBlocks(target, source)\<close> "appends source's content to target, then removes
  source" and "is a no-op if target has no mergeable trailing input". The promise it
  returns is resolved "once removal is complete"; the embedding runs the continuation of
  the caller right after it.
\<close>

definition storeMergeBlocks :: "editor \<Rightarrow> block \<Rightarrow> block \<Rightarrow> editor" where
  "storeMergeBlocks st t s =
     (case (indexOf (blocks st) (bid t), indexOf (blocks st) (bid s)) of
        (Some k, Some j) \<Rightarrow>
          (let tb = blocks st ! k; sb = blocks st ! j
           in if inputs tb = [] then st
              else removeBlock (st\<lparr>blocks := (blocks st)[k := appendContent tb (content sb)]\<rparr>) sb)
      | _ \<Rightarrow> st)"

text \<open>
  Modelled from the spec: \<^verbatim>\<open>BlockManager.split\<close> is missing. \<^verbatim>\<open>split()\<close> "splits the current block at the caret
  position into two sibling blocks of the same type, preserving content before the caret
  in the original block and content after in a new block inserted immediately after;
  returns the new (second) block". It is safe "only when a caret exists in the current
  block": without one the result is \<open>None\<close>.
\<close>

definition split :: "editor \<Rightarrow> (block \<times> editor) option" where
  "split st =
     (case currentBlock st of
        None \<Rightarrow> None
      | Some b \<Rightarrow>
          (case caret st of
             None \<Rightarrow> None
           | Some (n, i, off) \<Rightarrow>
               if n = bid b \<and> i < length (inputs b) \<and> off \<le> length (inputs b ! i)
               then
                 (let k = nat (currentBlockIndex st);
                      fst_half = b\<lparr>inputs := take i (inputs b) @ [take off (inputs b ! i)]\<rparr>;
                      snd_half = b\<lparr>bid := nextId st,
                                   inputs := drop off (inputs b ! i) # drop (Suc i) (inputs b),
                                   currentInput := None, dropTarget := False\<rparr>
                  in Some (snd_half,
                       st\<lparr>blocks := take k (blocks st) @ [fst_half, snd_half] @ drop (Suc k) (blocks st),
                          nextId := Suc (nextId st)\<rparr>))
               else None))"

section \<open>Collaborators\<close>

text \<open>
  The caret service, the toolbar, the UI module and the two selection modules are not
  among the source files. Each call is recorded in \<open>calls\<close>; the effect written here
  is the part of it that the handlers read back.
\<close>

text \<open>
  Modelled from the spec: the placing of the caret inside \<^verbatim>\<open>Caret\<close> is missing.
  With the caret in input \<open>i\<close> of the block at position \<open>k\<close>, the input becomes the
  current input of its block and the block the current block ("exactly one block may be
  marked current at a time, or none, if focus left the editor").
\<close>

definition placeCaret :: "editor \<Rightarrow> nat \<Rightarrow> nat \<Rightarrow> bool \<Rightarrow> editor" where
  "placeCaret st k i atStart =
     (let b = blocks st ! k
      in st\<lparr>blocks := (blocks st)[k := b\<lparr>currentInput := Some i\<rparr>],
            currentBlockIndex := int k,
            caret := Some (bid b, i, if atStart then 0 else length (inputs b ! i))\<rparr>)"

text \<open>
  Modelled from the spec: \<^verbatim>\<open>Caret.setToBlock\<close> is missing. It is
  \<^verbatim>\<open>setToBlock(block, position)\<close> "where position is one of {START, END}", to "move
  caret to start/end of block": the start of the first input or the end of the last one. The Enter handler passes no
  position, which is taken as the start. A block without an input cannot hold the caret.
\<close>

definition setToBlock :: "editor \<Rightarrow> block \<Rightarrow> position \<Rightarrow> editor" where
  "setToBlock st b pos =
     (let st' = emit (CaretSetToBlock (bid b) pos) st
      in case indexOf (blocks st') (bid b) of
           None \<Rightarrow> st'
         | Some k \<Rightarrow>
             (let n = length (inputs (blocks st' ! k))
              in if n = 0 then st'
                 else if pos = END then placeCaret st' k (n - 1) False
                 else placeCaret st' k 0 True))"

text \<open>
  Modelled from the spec: \<^verbatim>\<open>focus(input, atStart)\<close> of the caret library is
  missing. On a merge the "caret lands at the pre-merge end of previous block's last
  input": the call puts the caret at the start or at the end of one input, and the
  current block of the Store is not touched.
\<close>

definition focus :: "editor \<Rightarrow> block \<Rightarrow> nat \<Rightarrow> bool \<Rightarrow> editor" where
  "focus st b i atStart =
     (emit (CaretFocus (bid b) i atStart) st)
       \<lparr>caret := Some (bid b, i, if atStart then 0 else length (inputs b ! i))\<rparr>"

text \<open>
  Modelled from the spec: the search of \<^verbatim>\<open>Caret.navigateNext\<close> for its target is
  missing. The target is the "next input across the whole block sequence": the next input
  of the current block, or the first input of the next block; there is none "at the
  sequence boundary".
\<close>

definition nextInputTarget :: "editor \<Rightarrow> (nat \<times> nat) option" where
  "nextInputTarget st =
     (case currentBlock st of
        None \<Rightarrow> None
      | Some b \<Rightarrow>
          if (case currentInput b of None \<Rightarrow> False | Some i \<Rightarrow> Suc i < length (inputs b))
          then Some (nat (currentBlockIndex st), Suc (the (currentInput b)))
          else (case nextBlock st of
                  None \<Rightarrow> None
                | Some nb \<Rightarrow>
                    if inputs nb = [] then None
                    else Some (nat (currentBlockIndex st + 1), 0)))"

text \<open>
  Modelled from the spec: the search of \<^verbatim>\<open>Caret.navigatePrevious\<close> for its target
  is missing. The target is the "previous input across the whole block sequence": the
  input before the current one in the current block, or the last input of the previous
  block.
\<close>

definition previousInputTarget :: "editor \<Rightarrow> (nat \<times> nat) option" where
  "previousInputTarget st =
     (case currentBlock st of
        None \<Rightarrow> None
      | Some b \<Rightarrow>
          if (case currentInput b of None \<Rightarrow> False | Some i \<Rightarrow> 0 < i \<and> i < length (inputs b))
          then Some (nat (currentBlockIndex st), the (currentInput b) - 1)
          else (case previousBlock st of
                  None \<Rightarrow> None
                | Some pb \<Rightarrow>
                    if inputs pb = [] then None
                    else Some (nat (currentBlockIndex st - 1), length (inputs pb) - 1)))"

text \<open>
  Modelled from the spec: \<^verbatim>\<open>Caret.navigateNext\<close> is missing. It navigates to the
  next input, "returning whether movement occurred", and the caret lands at the start of
  the target. The spec gives no meaning to the flag that the Tab handler passes; it is
  recorded with the call.
\<close>

definition navigateNext :: "editor \<Rightarrow> bool \<Rightarrow> bool \<times> editor" where
  "navigateNext st force =
     (let st' = emit (CaretNavigateNext force) st
      in case nextInputTarget st' of
           None \<Rightarrow> (False, st')
         | Some (k, i) \<Rightarrow> (True, placeCaret st' k i True))"

text \<open>
  Modelled from the spec: \<^verbatim>\<open>Caret.navigatePrevious\<close> is missing. It navigates to
  the previous input, "returning whether movement occurred", and the caret lands at the
  end of the target.
\<close>

definition navigatePrevious :: "editor \<Rightarrow> bool \<Rightarrow> bool \<times> editor" where
  "navigatePrevious st force =
     (let st' = emit (CaretNavigatePrevious force) st
      in case previousInputTarget st' of
           None \<Rightarrow> (False, st')
         | Some (k, i) \<Rightarrow> (True, placeCaret st' k i False))"

text \<open>
  Modelled from the spec: \<^verbatim>\<open>Caret.insertContentAtCaretPosition\<close> is missing. By it
  "the literal character is inserted manually at the caret", which then stands after it.
\<close>

definition insertContentAtCaretPosition :: "editor \<Rightarrow> string \<Rightarrow> editor" where
  "insertContentAtCaretPosition st txt =
     (let st' = emit (InsertContentAtCaretPosition txt) st
      in case caret st' of
           None \<Rightarrow> st'
         | Some (n, i, off) \<Rightarrow>
             (case indexOf (blocks st') n of
                None \<Rightarrow> st'
              | Some k \<Rightarrow>
                  (let b = blocks st' ! k
                   in if i < length (inputs b) \<and> off \<le> length (inputs b ! i)
                      then st'\<lparr>blocks := (blocks st')[k := b\<lparr>inputs := (inputs b)
                                 [i := take off (inputs b ! i) @ txt @ drop off (inputs b ! i)]\<rparr>],
                               caret := Some (n, i, off + length txt)\<rparr>
                      else st')))"

text \<open>
  Modelled from the spec: \<^verbatim>\<open>Toolbar.close\<close> is missing. The toolbar has
  \<^verbatim>\<open>close()\<close>, \<^verbatim>\<open>moveAndOpen(targetBlock?)\<close>, \<^verbatim>\<open>opened\<close> "and sub-overlay
  handles"; to "close open overlays" the handlers "close the toolbar", which closes its
  toolbox and its block settings with it.
\<close>

definition toolbarClose :: "editor \<Rightarrow> editor" where
  "toolbarClose st =
     (emit ToolbarClose st)
       \<lparr>toolbarOpened := False, toolboxOpened := False, blockSettingsOpened := False\<rparr>"

text \<open>
  Modelled from the spec: \<^verbatim>\<open>Toolbar.moveAndOpen\<close> is missing. By it "the toolbar is
  repositioned and opened over" the block given, or over the current block when none is
  given.
\<close>

definition toolbarMoveAndOpen :: "editor \<Rightarrow> block option \<Rightarrow> editor" where
  "toolbarMoveAndOpen st b =
     (emit (ToolbarMoveAndOpen (map_option bid b)) st)
       \<lparr>toolbarOpened := True,
        toolbarBlock := (case b of None \<Rightarrow> map_option bid (currentBlock st) | Some x \<Rightarrow> Some (bid x))\<rparr>"

text \<open>
  Modelled from the spec: \<^verbatim>\<open>Toolbar.toolbox.open\<close> is missing; it belongs to the
  handle "toolbox.open()/opened".
\<close>

definition toolboxOpen :: "editor \<Rightarrow> editor" where
  "toolboxOpen st = (emit ToolboxOpen st)\<lparr>toolboxOpened := True\<rparr>"

text \<open>
  Modelled from the spec: \<^verbatim>\<open>BlockSettings.open\<close> is missing; it belongs to the
  handle "block-settings open()/opened".
\<close>

definition blockSettingsOpen :: "editor \<Rightarrow> editor" where
  "blockSettingsOpen st = (emit BlockSettingsOpen st)\<lparr>blockSettingsOpened := True\<rparr>"

text \<open>
  Modelled from the spec: \<^verbatim>\<open>InlineToolbar.close\<close> is missing; on drag-start the
  handler is to "close the inline toolbar".
\<close>

definition inlineToolbarClose :: "editor \<Rightarrow> editor" where
  "inlineToolbarClose st = (emit InlineToolbarClose st)\<lparr>inlineToolbarOpened := False\<rparr>"

text \<open>
  Modelled from the spec: the getter \<^verbatim>\<open>UI.someToolbarOpened\<close> is missing. It is the
  "some overlay open" aggregate flag over the toolbox, the block settings and the inline
  toolbar. The "some overlay's focus-cycling control currently owns keyboard focus" flag
  is the field \<open>someFlipperButtonFocused\<close>.
\<close>

definition someToolbarOpened :: "editor \<Rightarrow> bool" where
  "someToolbarOpened st =
     (toolboxOpened st \<or> blockSettingsOpened st \<or> inlineToolbarOpened st)"

text \<open>
  Modelled from the spec: \<^verbatim>\<open>UI.closeAllToolbars\<close> is missing; it closes the toolbar
  and every overlay.
\<close>

definition closeAllToolbars :: "editor \<Rightarrow> editor" where
  "closeAllToolbars st =
     (emit CloseAllToolbars st)
       \<lparr>toolbarOpened := False, toolboxOpened := False, blockSettingsOpened := False,
        inlineToolbarOpened := False\<rparr>"

text \<open>
  Modelled from the spec: the getter \<^verbatim>\<open>BlockSelection.anyBlockSelected\<close> is
  missing. The Cross-Block Selection Set is "a set of Block references marked selected";
  the getter tells whether it has a member.
\<close>

definition anyBlockSelected :: "editor \<Rightarrow> bool" where
  "anyBlockSelected st = (selectedBlocks st \<noteq> [])"

text \<open>
  Modelled from the spec: \<^verbatim>\<open>BlockSelection.clearSelection\<close> is missing; it is to
  "clear any multi-block selection".
\<close>

definition clearSelection :: "editor \<Rightarrow> editor" where
  "clearSelection st = (emit ClearSelection st)\<lparr>selectedBlocks := []\<rparr>"

text \<open>
  Modelled from the spec: \<^verbatim>\<open>CrossBlockSelection.toggleBlockSelectedState\<close> is
  missing. It "extends or shrinks the Cross-Block Selection Set by one block in the given
  direction"; its "bookkeeping is external", so only the call is recorded. The handler of
  the right and down arrows calls it without an argument, which stands for the forward
  direction.
\<close>

definition toggleBlockSelectedState :: "editor \<Rightarrow> bool \<Rightarrow> editor" where
  "toggleBlockSelectedState st forward = emit (ToggleBlockSelectedState forward) st"

section \<open>Block events\<close>

text \<open>
  The handlers of \<^verbatim>\<open>BlockEvents\<close>, in the order of the source file where a handler
  does not call a later one. Reading or writing a property of \<^verbatim>\<open>undefined\<close> throws
  a \<^verbatim>\<open>TypeError\<close>. The callback that the arrow handlers hand to \<^verbatim>\<open>_.delay\<close>
  runs after the handler has returned and is recorded as a call. The two clipboard
  handlers, \<^verbatim>\<open>handleCommandC\<close> and \<^verbatim>\<open>handleCommandX\<close>, are left out.
\<close>

definition andThen :: "outcome \<Rightarrow> (editor \<Rightarrow> outcome) \<Rightarrow> outcome" where
  "andThen r f = (case r of Returned st \<Rightarrow> f st | Threw e st \<Rightarrow> Threw e st)"

definition needToolbarClosing :: "keyboardEvent \<Rightarrow> editor \<Rightarrow> bool" where
  "needToolbarClosing event st =
     (let toolboxItemSelected = (keyCode event = ENTER \<and> toolboxOpened st);
          blockSettingsItemSelected = (keyCode event = ENTER \<and> blockSettingsOpened st);
          inlineToolbarItemSelected = (keyCode event = ENTER \<and> inlineToolbarOpened st);
          flippingToolbarItems = (keyCode event = TAB)
      in \<not> (shiftKey event \<or>
              flippingToolbarItems \<or>
              toolboxItemSelected \<or>
              blockSettingsItemSelected \<or>
              inlineToolbarItemSelected))"

text \<open>\<^verbatim>\<open>_.isPrintableKey\<close> is not among the source files and is a parameter.\<close>

definition beforeKeydownProcessing ::
  "(keyCode \<Rightarrow> bool) \<Rightarrow> keyboardEvent \<Rightarrow> editor \<Rightarrow> editor" where
  "beforeKeydownProcessing isPrintableKey event st =
     (if \<not> needToolbarClosing event st then st
      else if isPrintableKey (keyCode event)
      then (let st1 = toolbarClose st;
                isShortcut = (ctrlKey event \<or> metaKey event \<or> altKey event \<or> shiftKey event)
            in if \<not> isShortcut then clearSelection st1 else st1)
      else st)"

definition keyup :: "keyboardEvent \<Rightarrow> editor \<Rightarrow> editor" where
  "keyup event st = (if shiftKey event then st else emit CheckEmptiness st)"

text \<open>
  A block obtained from the Store is a reference: a write to one of its properties is a
  write to the block of that identity in the sequence.
\<close>

definition writeBlock :: "editor \<Rightarrow> block \<Rightarrow> (block \<Rightarrow> block) \<Rightarrow> editor" where
  "writeBlock st b f =
     (case indexOf (blocks st) (bid b) of
        None \<Rightarrow> st
      | Some k \<Rightarrow> st\<lparr>blocks := (blocks st)[k := f (blocks st ! k)]\<rparr>)"

definition dragOver :: "dragEvent \<Rightarrow> editor \<Rightarrow> outcome" where
  "dragOver event st =
     (case getBlockByChildNode st (target event) of
        None \<Rightarrow> Threw TypeError st
      | Some b \<Rightarrow> Returned (writeBlock st b (\<lambda>x. x\<lparr>dropTarget := True\<rparr>)))"

definition dragLeave :: "dragEvent \<Rightarrow> editor \<Rightarrow> outcome" where
  "dragLeave event st =
     (case getBlockByChildNode st (target event) of
        None \<Rightarrow> Threw TypeError st
      | Some b \<Rightarrow> Returned (writeBlock st b (\<lambda>x. x\<lparr>dropTarget := False\<rparr>)))"

definition tabPressed :: "keyboardEvent \<Rightarrow> editor \<Rightarrow> outcome" where
  "tabPressed event st =
     (let isFlipperActivated = inlineToolbarOpened st
      in if isFlipperActivated then Returned st
         else (let (isNavigated, st1) =
                     (if shiftKey event then navigatePrevious st True else navigateNext st True)
               in if isNavigated then Returned (emit PreventDefault st1) else Returned st1))"

definition activateToolbox :: "editor \<Rightarrow> editor" where
  "activateToolbox st =
     toolboxOpen (if \<not> toolbarOpened st then toolbarMoveAndOpen st None else st)"

definition activateBlockSettings :: "editor \<Rightarrow> editor" where
  "activateBlockSettings st =
     (let st1 = (if \<not> toolbarOpened st then toolbarMoveAndOpen st None else st)
      in if \<not> blockSettingsOpened st1 then blockSettingsOpen st1 else st1)"

definition commandSlashPressed :: "editor \<Rightarrow> editor" where
  "commandSlashPressed st =
     (if length (selectedBlocks st) > 1 then st else activateBlockSettings st)"

definition slashPressed :: "keyboardEvent \<Rightarrow> editor \<Rightarrow> outcome" where
  "slashPressed event st =
     (case currentBlock st of
        None \<Rightarrow> Threw TypeError st
      | Some cb \<Rightarrow>
          (let canOpenToolbox = isEmpty cb
           in if \<not> canOpenToolbox then Returned st
              else Returned (activateToolbox
                     (insertContentAtCaretPosition (emit PreventDefault st) ''/''))))"

text \<open>
  Enter. \<^verbatim>\<open>split()\<close> without a caret in the current block is the one call the
  handler makes outside the contract of the Store.
\<close>

definition enterFinish :: "editor \<Rightarrow> block \<Rightarrow> outcome" where
  "enterFinish st blockToFocus =
     Returned (emit PreventDefault
       (toolbarMoveAndOpen (setToBlock st blockToFocus DEFAULT) (Some blockToFocus)))"

definition enter :: "keyboardEvent \<Rightarrow> editor \<Rightarrow> outcome" where
  "enter event st =
     (case currentBlock st of
        None \<Rightarrow> Returned st
      | Some cb \<Rightarrow>
          if isLineBreaksEnabled cb then Returned st
          else if someToolbarOpened st \<and> someFlipperButtonFocused st then Returned st
          else if shiftKey event \<and> \<not> isIosDevice st then Returned st
          else if currentInput cb \<noteq> None \<and> isCaretAtStartOfInput st cb (currentInput cb)
                  \<and> \<not> hasMedia cb
          then (let (nb, st1) = insertDefaultBlockAtIndex st (currentBlockIndex st) False
                in enterFinish st1 cb)
          else if currentInput cb \<noteq> None \<and> isCaretAtEndOfInput st cb (currentInput cb)
          then (let (nb, st1) = insertDefaultBlockAtIndex st (currentBlockIndex st + 1) False
                in enterFinish st1 nb)
          else (case split st of
                  None \<Rightarrow> Threw SplitWithoutCaret st
                | Some (nb, st1) \<Rightarrow> enterFinish st1 nb))"

text \<open>
  The private \<^verbatim>\<open>mergeBlocks\<close> of the handlers; \<^verbatim>\<open>areBlocksMergeable\<close> of
  \<^verbatim>\<open>utils/blocks\<close> is not among the source files and is a parameter of the two
  handlers that consult it.
\<close>

definition mergeBlocks :: "editor \<Rightarrow> block \<Rightarrow> block \<Rightarrow> editor" where
  "mergeBlocks st targetBlock blockToMerge =
     (case lastInput targetBlock of
        None \<Rightarrow> st
      | Some li \<Rightarrow>
          toolbarClose (storeMergeBlocks (focus st targetBlock li False) targetBlock blockToMerge))"

definition backspace ::
  "(block \<Rightarrow> block \<Rightarrow> bool) \<Rightarrow> keyboardEvent \<Rightarrow> editor \<Rightarrow> outcome" where
  "backspace areBlocksMergeable event st =
     (case currentBlock st of
        None \<Rightarrow> Returned st
      | Some cb \<Rightarrow>
          if \<not> isCollapsed st then Returned st
          else if currentInput cb = None \<or> \<not> isCaretAtStartOfInput st cb (currentInput cb)
          then Returned st
          else
            (let st1 = toolbarClose (emit PreventDefault st);
                 isFirstInputFocused = (currentInput cb = firstInput cb)
             in if \<not> isFirstInputFocused then Returned (snd (navigatePrevious st1 False))
                else (case previousBlock st of
                        None \<Rightarrow> Returned st1
                      | Some pb \<Rightarrow>
                          if isEmpty pb then Returned (removeBlock st1 pb)
                          else if isEmpty cb
                          then (let st2 = removeBlock st1 cb
                                in case currentBlock st2 of
                                     None \<Rightarrow> Threw TypeError st2
                                   | Some newCurrentBlock \<Rightarrow>
                                       Returned (setToBlock st2 newCurrentBlock END))
                          else (let bothBlocksMergeable = areBlocksMergeable pb cb
                                in if bothBlocksMergeable
                                   then Returned (mergeBlocks st1 pb cb)
                                   else Returned (setToBlock st1 pb END)))))"

definition delete ::
  "(block \<Rightarrow> block \<Rightarrow> bool) \<Rightarrow> keyboardEvent \<Rightarrow> editor \<Rightarrow> outcome" where
  "delete areBlocksMergeable event st =
     (if \<not> isCollapsed st then Returned st
      else case currentBlock st of
        None \<Rightarrow> Threw TypeError st
      | Some cb \<Rightarrow>
          if \<not> isCaretAtEndOfInput st cb (currentInput cb) then Returned st
          else
            (let st1 = toolbarClose (emit PreventDefault st);
                 isLastInputFocused = (currentInput cb = lastInput cb)
             in if \<not> isLastInputFocused then Returned (snd (navigateNext st1 False))
                else (case nextBlock st of
                        None \<Rightarrow> Returned st1
                      | Some nb \<Rightarrow>
                          if isEmpty nb then Returned (removeBlock st1 nb)
                          else if isEmpty cb
                          then Returned (setToBlock (removeBlock st1 cb) nb START)
                          else (let bothBlocksMergeable = areBlocksMergeable cb nb
                                in if bothBlocksMergeable
                                   then Returned (mergeBlocks st1 cb nb)
                                   else Returned (setToBlock st1 nb START)))))"

definition isFlipperCombination :: "keyboardEvent \<Rightarrow> editor \<Rightarrow> bool" where
  "isFlipperCombination event st =
     (keyCode event \<in> set (usedKeys st) \<and> (\<not> shiftKey event \<or> keyCode event = TAB))"

definition arrowRightAndDown :: "keyboardEvent \<Rightarrow> editor \<Rightarrow> outcome" where
  "arrowRightAndDown event st =
     (if someToolbarOpened st \<and> isFlipperCombination event st then Returned st
      else
        (let st1 = toolbarClose st;
             caretAtEnd = (case currentBlock st1 of
                             None \<Rightarrow> False
                           | Some cb \<Rightarrow> isCaretAtEndOfInput st1 cb (currentInput cb));
             shouldEnableCBS = (caretAtEnd \<or> anyBlockSelected st1)
         in if shiftKey event \<and> keyCode event = DOWN \<and> shouldEnableCBS
            then Returned (toggleBlockSelectedState st1 True)
            else
              (let navNext = (keyCode event = DOWN \<or> (keyCode event = RIGHT \<and> \<not> isRtl st1));
                   (isNavigated, st2) =
                     (if navNext then navigateNext st1 False else navigatePrevious st1 False)
               in if isNavigated then Returned (emit PreventDefault st2)
                  else Returned (clearSelection (emit DelayUpdateCurrentInput st2)))))"

definition arrowLeftAndUp :: "keyboardEvent \<Rightarrow> editor \<Rightarrow> outcome" where
  "arrowLeftAndUp event st =
     (if someToolbarOpened st \<and> isFlipperCombination event st then Returned st
      else
        (let st0 = (if someToolbarOpened st then closeAllToolbars st else st);
             st1 = toolbarClose st0;
             caretAtStart = (case currentBlock st1 of
                               None \<Rightarrow> False
                             | Some cb \<Rightarrow> isCaretAtStartOfInput st1 cb (currentInput cb));
             shouldEnableCBS = (caretAtStart \<or> anyBlockSelected st1)
         in if shiftKey event \<and> keyCode event = UP \<and> shouldEnableCBS
            then Returned (toggleBlockSelectedState st1 False)
            else
              (let navPrevious = (keyCode event = UP \<or> (keyCode event = LEFT \<and> \<not> isRtl st1));
                   (isNavigated, st2) =
                     (if navPrevious then navigatePrevious st1 False else navigateNext st1 False)
               in if isNavigated then Returned (emit PreventDefault st2)
                  else Returned (clearSelection (emit DelayUpdateCurrentInput st2)))))"

definition keydown ::
  "(keyCode \<Rightarrow> bool) \<Rightarrow> (block \<Rightarrow> block \<Rightarrow> bool) \<Rightarrow> keyboardEvent \<Rightarrow> editor \<Rightarrow> outcome" where
  "keydown isPrintableKey areBlocksMergeable event st =
     andThen
       (let st1 = beforeKeydownProcessing isPrintableKey event st
        in case keyCode event of
             BACKSPACE \<Rightarrow> backspace areBlocksMergeable event st1
           | DELETE \<Rightarrow> delete areBlocksMergeable event st1
           | ENTER \<Rightarrow> enter event st1
           | DOWN \<Rightarrow> arrowRightAndDown event st1
           | RIGHT \<Rightarrow> arrowRightAndDown event st1
           | UP \<Rightarrow> arrowLeftAndUp event st1
           | LEFT \<Rightarrow> arrowLeftAndUp event st1
           | TAB \<Rightarrow> tabPressed event st1
           | OTHER \<Rightarrow> Returned st1)
       (\<lambda>st2.
          andThen
            (if key event = ''/'' \<and> \<not> ctrlKey event \<and> \<not> metaKey event
             then slashPressed event st2 else Returned st2)
            (\<lambda>st3.
               if code event = ''Slash'' \<and> (ctrlKey event \<or> metaKey event)
               then Returned (commandSlashPressed (emit PreventDefault st3))
               else Returned st3))"

section \<open>Drag and drop\<close>

text \<open>
  The handlers of \<^verbatim>\<open>DragNDrop\<close>. \<^verbatim>\<open>document.execCommand('delete')\<close> is the
  browser removing the selected fragment; the extent of a selection is not part of the
  state ("collapsed vs. non-collapsed is the only property the core consumes"), so the
  call is recorded and the text of the blocks is left to the browser.
  \<^verbatim>\<open>Paste.processDataTransfer\<close> is the external import pipeline and is recorded
  with its two arguments. The three listeners are taken as bound, as they are when the
  editor is not read-only.
\<close>

definition processDrop :: "dragEvent \<Rightarrow> editor \<Rightarrow> outcome" where
  "processDrop dropEvent st =
     (let st1 = emit PreventDefault st;
          st2 = st1\<lparr>blocks := map (\<lambda>b. b\<lparr>dropTarget := False\<rparr>) (blocks st1)\<rparr>;
          st3 = (if isAtEditor st2 \<and> \<not> isCollapsed st2 \<and> isStartedAtEditor st2
                 then emit ExecCommandDelete st2 else st2);
          st4 = st3\<lparr>isStartedAtEditor := False\<rparr>;
          (targetBlock, st5) = setCurrentBlockByChildNode st4 (target dropEvent)
      in case targetBlock of
           Some tb \<Rightarrow>
             Returned (emit (ProcessDataTransfer (dataTransfer dropEvent) True)
                        (setToBlock st5 tb END))
         | None \<Rightarrow>
             (case lastBlock st5 of
                None \<Rightarrow> Threw TypeError st5
              | Some lb \<Rightarrow>
                  (let (lastB, st6) = setCurrentBlockByChildNode st5 (Some (bid lb))
                   in case lastB of
                        None \<Rightarrow> Threw TypeError st6
                      | Some l \<Rightarrow>
                          Returned (emit (ProcessDataTransfer (dataTransfer dropEvent) True)
                                     (setToBlock st6 l END)))))"

definition processDragStart :: "editor \<Rightarrow> editor" where
  "processDragStart st =
     inlineToolbarClose
       (if isAtEditor st \<and> \<not> isCollapsed st then st\<lparr>isStartedAtEditor := True\<rparr> else st)"

definition processDragOver :: "dragEvent \<Rightarrow> editor \<Rightarrow> editor" where
  "processDragOver dragEvent st = emit PreventDefault st"

section \<open>Notions of the specification\<close>

text \<open>
  The words of the specification that the source has no function for, each written out
  over the state so that a claim can be put beside what the handlers compute.
\<close>

text \<open>The calls a handler has added to the ones made before it.\<close>

definition newCalls :: "editor \<Rightarrow> editor \<Rightarrow> call list" where
  "newCalls st st' = drop (length (calls st)) (calls st')"

text \<open>Blocks are "unique by identity", and a new block gets an identity not yet in use.\<close>

definition uniqueIds :: "editor \<Rightarrow> bool" where
  "uniqueIds st = (distinct (map bid (blocks st)) \<and> list_all (\<lambda>b. bid b < nextId st) (blocks st))"

text \<open>
  The caret at the logical start or end of a block: at the start of its first input, at
  the end of its last one.
\<close>

definition isCaretAtStartOfBlock :: "editor \<Rightarrow> block \<Rightarrow> bool" where
  "isCaretAtStartOfBlock st b = isCaretAtStartOfInput st b (firstInput b)"

definition isCaretAtEndOfBlock :: "editor \<Rightarrow> block \<Rightarrow> bool" where
  "isCaretAtEndOfBlock st b = isCaretAtEndOfInput st b (lastInput b)"

text \<open>
  "Tab is being used to cycle an open toolbar's own items": the key is Tab and a toolbar
  or one of the overlays is open. "Enter is pressed while a toolbox, block-settings or
  inline-toolbar item is the active selection target": the key is Enter and one of the
  three overlays is open.
\<close>

definition tabCyclesToolbarItems :: "keyboardEvent \<Rightarrow> editor \<Rightarrow> bool" where
  "tabCyclesToolbarItems event st =
     (keyCode event = TAB \<and> (toolbarOpened st \<or> someToolbarOpened st))"

definition enterSelectsToolbarItem :: "keyboardEvent \<Rightarrow> editor \<Rightarrow> bool" where
  "enterSelectsToolbarItem event st = (keyCode event = ENTER \<and> someToolbarOpened st)"

text \<open>
  "Any toolbar overlay is currently consuming Tab for its internal item-to-item focus
  cycling": an overlay is open and its focus-cycling control owns the keyboard focus.
\<close>

definition overlayConsumesTab :: "editor \<Rightarrow> bool" where
  "overlayConsumesTab st = (someToolbarOpened st \<and> someFlipperButtonFocused st)"

text \<open>
  The block a drop is aimed at: the owner of the event target, "falling back to the last
  block if the target maps to none".
\<close>

definition dropTargetIndex :: "editor \<Rightarrow> dragEvent \<Rightarrow> nat" where
  "dropTargetIndex st dropEvent =
     (case target dropEvent of
        None \<Rightarrow> length (blocks st) - 1
      | Some n \<Rightarrow>
          (case indexOf (blocks st) n of
             None \<Rightarrow> length (blocks st) - 1
           | Some k \<Rightarrow> k))"

text \<open>The same key pressed again and again, each press on the state the last one left.\<close>

fun backspaceTimes ::
  "(block \<Rightarrow> block \<Rightarrow> bool) \<Rightarrow> keyboardEvent \<Rightarrow> nat \<Rightarrow> editor \<Rightarrow> editor" where
  "backspaceTimes areBlocksMergeable event 0 st = st"
| "backspaceTimes areBlocksMergeable event (Suc n) st =
     backspaceTimes areBlocksMergeable event n (stateOf (backspace areBlocksMergeable event st))"

text \<open>
  A run of the drag-and-drop module: the listeners that \<^verbatim>\<open>enableModuleBindings\<close>
  binds, fired one after the other. The selection is the user's and may be anything when
  an event arrives, so each step carries what \<^verbatim>\<open>SelectionUtils.isAtEditor\<close> and
  \<^verbatim>\<open>SelectionUtils.isCollapsed\<close> answer at that moment. A handler that throws
  leaves the state as it was at the throw. The module starts with
  \<^verbatim>\<open>isStartedAtEditor = false\<close>.
\<close>

datatype dndEvent = DragStart | DragOver dragEvent | Drop dragEvent

type_synonym dndStep = "bool \<times> bool \<times> dndEvent"

definition withSelection :: "editor \<Rightarrow> bool \<Rightarrow> bool \<Rightarrow> editor" where
  "withSelection st atEditor collapsed = st\<lparr>isAtEditor := atEditor, isCollapsed := collapsed\<rparr>"

fun fire :: "editor \<Rightarrow> dndStep \<Rightarrow> editor" where
  "fire st (atEditor, collapsed, DragStart) = processDragStart (withSelection st atEditor collapsed)"
| "fire st (atEditor, collapsed, DragOver e) = processDragOver e (withSelection st atEditor collapsed)"
| "fire st (atEditor, collapsed, Drop e) = stateOf (processDrop e (withSelection st atEditor collapsed))"

definition run :: "editor \<Rightarrow> dndStep list \<Rightarrow> editor" where
  "run st steps = foldl fire st steps"

definition isDrop :: "dndStep \<Rightarrow> bool" where
  "isDrop s = (case snd (snd s) of Drop e \<Rightarrow> True | _ \<Rightarrow> False)"

text \<open>The drop handler takes its delete branch when this step is fired.\<close>

definition deletesSelection :: "editor \<Rightarrow> dndStep \<Rightarrow> bool" where
  "deletesSelection st s =
     (isDrop s \<and> ExecCommandDelete \<in> set (newCalls (withSelection st (fst s) (fst (snd s))) (fire st s)))"

section \<open>Sample states\<close>

text \<open>Concrete blocks and editors, on which the theorems below are run.\<close>

definition paragraphBlock :: "nat \<Rightarrow> string \<Rightarrow> block" where
  "paragraphBlock n txt =
     \<lparr>bid = n, toolName = ''paragraph'', inputs = [txt], currentInput = Some 0,
      isLineBreaksEnabled = False, hasMedia = False, dropTarget = False\<rparr>"

definition quoteBlock :: "nat \<Rightarrow> string \<Rightarrow> string \<Rightarrow> nat \<Rightarrow> block" where
  "quoteBlock n txt caption i =
     \<lparr>bid = n, toolName = ''quote'', inputs = [txt, caption], currentInput = Some i,
      isLineBreaksEnabled = False, hasMedia = False, dropTarget = False\<rparr>"

definition editorOf :: "block list \<Rightarrow> int \<Rightarrow> (nat \<times> nat \<times> nat) option \<Rightarrow> editor" where
  "editorOf bs i c =
     \<lparr>blocks = bs, currentBlockIndex = i, nextId = 100, defaultBlock = ''paragraph'',
      caret = c, isCollapsed = True, isAtEditor = True,
      toolbarOpened = False, toolbarBlock = None, toolboxOpened = False,
      blockSettingsOpened = False, inlineToolbarOpened = False,
      someFlipperButtonFocused = False, selectedBlocks = [],
      isRtl = False, isIosDevice = False, usedKeys = [TAB, LEFT, RIGHT, ENTER, UP, DOWN],
      isStartedAtEditor = False, calls = []\<rparr>"

definition keyEvent :: "keyCode \<Rightarrow> bool \<Rightarrow> keyboardEvent" where
  "keyEvent k shift =
     \<lparr>keyCode = k, shiftKey = shift, ctrlKey = False, metaKey = False, altKey = False,
      key = [], code = []\<rparr>"

definition sameType :: "block \<Rightarrow> block \<Rightarrow> bool" where
  "sameType a b = (toolName a = toolName b)"

definition docAbCd :: "int \<Rightarrow> (nat \<times> nat \<times> nat) option \<Rightarrow> editor" where
  "docAbCd i c = editorOf [paragraphBlock 0 ''ab'', paragraphBlock 1 ''cd''] i c"

text \<open>The toolbox is open and one of its items has the keyboard focus.\<close>

definition toolboxFocused :: editor where
  "toolboxFocused =
     (docAbCd 0 (Some (0, 0, 0)))
       \<lparr>toolbarOpened := True, toolboxOpened := True, someFlipperButtonFocused := True\<rparr>"

text \<open>A quote with its caption, the caret at the start of the caption.\<close>

definition captionStart :: editor where
  "captionStart = editorOf [quoteBlock 0 ''ab'' ''cd'' 1] 0 (Some (0, 1, 0))"

text \<open>
  A drag that began inside the editor with a fragment selected, and a drop on a node
  outside every block.
\<close>

definition draggedInside :: editor where
  "draggedInside = (docAbCd 0 (Some (0, 0, 2)))\<lparr>isCollapsed := False, isStartedAtEditor := True\<rparr>"

definition dropOutside :: dragEvent where
  "dropOutside = \<lparr>target = None, dataTransfer = ''payload''\<rparr>"

section \<open>Basic facts\<close>

lemmas sample_defs = docAbCd_def editorOf_def paragraphBlock_def quoteBlock_def keyEvent_def

lemmas read_defs = currentBlock_def previousBlock_def nextBlock_def lastBlock_def blockAt_def
  isCaretAtStartOfInput_def isCaretAtEndOfInput_def firstInput_def lastInput_def
  isEmpty_def content_def someToolbarOpened_def anyBlockSelected_def

lemmas caret_defs = placeCaret_def setToBlock_def focus_def nextInputTarget_def
  previousInputTarget_def navigateNext_def navigatePrevious_def

lemma emit_fields [simp]:
  "blocks (emit c st) = blocks st"
  "currentBlockIndex (emit c st) = currentBlockIndex st"
  "caret (emit c st) = caret st"
  "nextId (emit c st) = nextId st"
  "isCollapsed (emit c st) = isCollapsed st"
  "isAtEditor (emit c st) = isAtEditor st"
  "isStartedAtEditor (emit c st) = isStartedAtEditor st"
  "inlineToolbarOpened (emit c st) = inlineToolbarOpened st"
  "selectedBlocks (emit c st) = selectedBlocks st"
  "isRtl (emit c st) = isRtl st"
  "defaultBlock (emit c st) = defaultBlock st"
  "calls (emit c st) = calls st @ [c]"
  by (simp_all add: emit_def)

lemma toolbarClose_fields [simp]:
  "blocks (toolbarClose st) = blocks st"
  "currentBlockIndex (toolbarClose st) = currentBlockIndex st"
  "caret (toolbarClose st) = caret st"
  "nextId (toolbarClose st) = nextId st"
  "isCollapsed (toolbarClose st) = isCollapsed st"
  "isAtEditor (toolbarClose st) = isAtEditor st"
  "isStartedAtEditor (toolbarClose st) = isStartedAtEditor st"
  "inlineToolbarOpened (toolbarClose st) = inlineToolbarOpened st"
  "selectedBlocks (toolbarClose st) = selectedBlocks st"
  "isRtl (toolbarClose st) = isRtl st"
  "defaultBlock (toolbarClose st) = defaultBlock st"
  "calls (toolbarClose st) = calls st @ [ToolbarClose]"
  by (simp_all add: toolbarClose_def emit_def)

lemma store_reads_emit [simp]:
  "currentBlock (emit c st) = currentBlock st"
  "previousBlock (emit c st) = previousBlock st"
  "nextBlock (emit c st) = nextBlock st"
  "isCaretAtStartOfInput (emit c st) b i = isCaretAtStartOfInput st b i"
  "isCaretAtEndOfInput (emit c st) b i = isCaretAtEndOfInput st b i"
  by (simp_all add: currentBlock_def previousBlock_def nextBlock_def blockAt_def
        isCaretAtStartOfInput_def isCaretAtEndOfInput_def split: option.splits)

lemma store_reads_toolbarClose [simp]:
  "currentBlock (toolbarClose st) = currentBlock st"
  "previousBlock (toolbarClose st) = previousBlock st"
  "nextBlock (toolbarClose st) = nextBlock st"
  "isCaretAtStartOfInput (toolbarClose st) b i = isCaretAtStartOfInput st b i"
  "isCaretAtEndOfInput (toolbarClose st) b i = isCaretAtEndOfInput st b i"
  "anyBlockSelected (toolbarClose st) = anyBlockSelected st"
  by (simp_all add: currentBlock_def previousBlock_def nextBlock_def blockAt_def
        isCaretAtStartOfInput_def isCaretAtEndOfInput_def anyBlockSelected_def
        split: option.splits)

lemma targets_emit [simp]:
  "nextInputTarget (emit c st) = nextInputTarget st"
  "previousInputTarget (emit c st) = previousInputTarget st"
  by (simp_all add: nextInputTarget_def previousInputTarget_def cong: option.case_cong if_cong)

lemma placeCaret_fields [simp]:
  "currentBlockIndex (placeCaret st k i a) = int k"
  "caret (placeCaret st k i a) = Some (bid (blocks st ! k), i, if a then 0 else length (inputs (blocks st ! k) ! i))"
  "calls (placeCaret st k i a) = calls st"
  "nextId (placeCaret st k i a) = nextId st"
  "isStartedAtEditor (placeCaret st k i a) = isStartedAtEditor st"
  "blocks (placeCaret st k i a) = (blocks st)[k := (blocks st ! k)\<lparr>currentInput := Some i\<rparr>]"
  by (simp_all add: placeCaret_def Let_def)

lemma withSelection_fields [simp]:
  "isStartedAtEditor (withSelection st a c) = isStartedAtEditor st"
  "isAtEditor (withSelection st a c) = a"
  "isCollapsed (withSelection st a c) = c"
  "calls (withSelection st a c) = calls st"
  by (simp_all add: withSelection_def)

lemmas drop_defs = processDrop_def setCurrentBlockByChildNode_def processDragStart_def
  processDragOver_def inlineToolbarClose_def withSelection_def

subsection \<open>Finding a block by its identity\<close>

lemma indexOf_Some: "indexOf bs n = Some k \<Longrightarrow> k < length bs \<and> bid (bs ! k) = n"
  by (induction bs arbitrary: k) (auto split: if_splits)

lemma indexOf_member: "b \<in> set bs \<Longrightarrow> \<exists>j. indexOf bs (bid b) = Some j"
  by (induction bs) auto

lemma indexOf_nth:
  "distinct (map bid bs) \<Longrightarrow> k < length bs \<Longrightarrow> indexOf bs (bid (bs ! k)) = Some k"
proof (induction bs arbitrary: k)
  case Nil
  then show ?case by simp
next
  case (Cons b bs)
  show ?case
  proof (cases k)
    case 0
    then show ?thesis by simp
  next
    case (Suc j)
    with Cons.prems have j: "j < length bs" and d: "distinct (map bid bs)"
      and "bid b \<notin> bid ` set bs"
      by auto
    then have "bid (bs ! j) \<noteq> bid b"
      by (metis imageI nth_mem)
    with Cons.IH [OF d j] Suc show ?thesis by simp
  qed
qed

lemma indexOf_same_ids: "map bid bs' = map bid bs \<Longrightarrow> indexOf bs' n = indexOf bs n"
proof (induction bs arbitrary: bs')
  case Nil
  then show ?case by simp
next
  case (Cons b bs)
  then obtain c cs where bs': "bs' = c # cs" and c: "bid c = bid b"
    and cs: "map bid cs = map bid bs"
    by (cases bs') auto
  have "indexOf cs n = indexOf bs n"
    using cs by (rule Cons.IH)
  then show ?case
    by (simp add: bs' c)
qed

lemma clear_ids [simp]: "map bid (map (\<lambda>b. b\<lparr>dropTarget := False\<rparr>) bs) = map bid bs"
  by simp

lemma indexOf_clear [simp]:
  "indexOf (map (\<lambda>b. b\<lparr>dropTarget := False\<rparr>) bs) n = indexOf bs n"
  by (rule indexOf_same_ids) simp

lemma map_update_same:
  "f y = f (xs ! k) \<Longrightarrow> map f (xs[k := y]) = map f xs"
  by (cases "k < length xs") (simp_all add: map_update list_update_same_conv list_update_beyond)

lemma no_dropTarget_conv:
  "list_all (\<lambda>b. \<not> dropTarget b) xs = (True \<notin> set (map dropTarget xs))"
  by (induction xs) auto

lemma indexOf_at:
  "n \<notin> bid ` set xs \<Longrightarrow> bid y = n \<Longrightarrow> indexOf (xs @ y # ys) n = Some (length xs)"
  by (induction xs) auto

lemma fresh_absent:
  "list_all (\<lambda>b. bid b < n) xs \<Longrightarrow> n \<notin> bid ` set xs"
  by (auto simp: list_all_iff)

lemma distinct_before:
  assumes "distinct (map f bs)" and "k < length bs"
  shows "f (bs ! k) \<notin> f ` set (take k bs)"
proof -
  from assms(2) have "bs = take k bs @ bs ! k # drop (Suc k) bs"
    by (rule id_take_nth_drop)
  then have "distinct (map f (take k bs @ bs ! k # drop (Suc k) bs))"
    using assms(1) by (rule subst)
  then show ?thesis
    by simp
qed

lemma current_block:
  assumes "currentBlock st = Some cb"
  obtains k where "currentBlockIndex st = int k" and "k < length (blocks st)"
    and "cb = blocks st ! k"
proof -
  let ?c = "currentBlockIndex st"
  from assms have c: "0 \<le> ?c" "?c < int (length (blocks st))" and cb: "cb = blocks st ! nat ?c"
    by (auto simp: currentBlock_def blockAt_def split: if_splits)
  have 1: "?c = int (nat ?c)" and 2: "nat ?c < length (blocks st)"
    using c by simp_all
  from 1 2 cb show ?thesis
    by (rule that)
qed

lemma two_blocks:
  assumes "currentBlock st = Some cb" and "previousBlock st = Some pb"
  obtains j where "currentBlockIndex st = int (Suc j)" and "Suc j < length (blocks st)"
    and "cb = blocks st ! Suc j" and "pb = blocks st ! j"
proof -
  let ?c = "currentBlockIndex st"
  from assms have c: "1 \<le> ?c" "?c < int (length (blocks st))"
    and cb: "cb = blocks st ! nat ?c" and pb: "pb = blocks st ! nat (?c - 1)"
    by (auto simp: currentBlock_def previousBlock_def blockAt_def split: if_splits)
  define j where "j = nat (?c - 1)"
  have 1: "?c = int (Suc j)" and 2: "Suc j < length (blocks st)" and 3: "nat ?c = Suc j"
    using c by (simp_all add: j_def)
  have 4: "cb = blocks st ! Suc j"
    using cb by (simp only: 3)
  have 5: "pb = blocks st ! j"
    using pb by (simp only: j_def)
  from 1 2 4 5 show ?thesis
    by (rule that)
qed

subsection \<open>Placing the caret in a block\<close>

lemma setToBlock_calls [simp]:
  "calls (setToBlock st b pos) = calls st @ [CaretSetToBlock (bid b) pos]"
  by (simp add: setToBlock_def Let_def split: option.splits)

lemma setToBlock_flag [simp]:
  "isStartedAtEditor (setToBlock st b pos) = isStartedAtEditor st"
  by (simp add: setToBlock_def Let_def split: option.splits)

lemma setToBlock_blocks:
  assumes "indexOf (blocks st) (bid b) = Some k"
  shows "blocks (setToBlock st b pos) =
           (if inputs (blocks st ! k) = [] then blocks st
            else (blocks st)[k := (blocks st ! k)\<lparr>currentInput :=
                    Some (if pos = END then length (inputs (blocks st ! k)) - 1 else 0)\<rparr>])"
  using assms by (simp add: setToBlock_def Let_def)

lemma setToBlock_maps:
  assumes "indexOf (blocks st) (bid b) = Some k"
  shows "map inputs (blocks (setToBlock st b pos)) = map inputs (blocks st)"
    and "map bid (blocks (setToBlock st b pos)) = map bid (blocks st)"
    and "map dropTarget (blocks (setToBlock st b pos)) = map dropTarget (blocks st)"
  by (simp_all add: setToBlock_blocks [OF assms] map_update_same)

lemma setToBlock_END:
  assumes "indexOf (blocks st) (bid b) = Some k"
  shows "inputs (blocks st ! k) \<noteq> [] \<Longrightarrow> currentBlockIndex (setToBlock st b END) = int k"
    and "inputs (blocks st ! k) = [] \<Longrightarrow> currentBlockIndex (setToBlock st b END) = currentBlockIndex st"
    and "inputs (blocks st ! k) \<noteq> [] \<Longrightarrow>
           caret (setToBlock st b END) =
             Some (bid b, length (inputs (blocks st ! k)) - 1, length (last (inputs (blocks st ! k))))"
  using assms indexOf_Some [OF assms]
  by (simp_all add: setToBlock_def Let_def last_conv_nth)

lemma setCurrent_fields [simp]:
  "calls (snd (setCurrentBlockByChildNode st node)) = calls st"
  "blocks (snd (setCurrentBlockByChildNode st node)) = blocks st"
  "isStartedAtEditor (snd (setCurrentBlockByChildNode st node)) = isStartedAtEditor st"
  by (simp_all add: setCurrentBlockByChildNode_def split: option.splits)

section \<open>Absent referents\<close>

text \<open>
  Claim C2: in every handler a boundary condition in which a referent is absent is a
  defined no-op and never a thrown fault; in particular Delete and Slash with no current
  block, and drag-over and drag-leave on a target that no block owns, return without
  effect.

  The Backspace and Enter handlers test \<^verbatim>\<open>currentBlock === undefined\<close> and return,
  and the drop handler tests the block it resolved; the four handlers named by the claim
  read a property of the absent block at once. With no current block and a collapsed
  selection, Delete throws; Slash throws with no current block; drag-over and drag-leave
  throw on a target outside every block.
\<close>

theorem absent_referent_throws:
  "delete sameType (keyEvent DELETE False) (editorOf [paragraphBlock 0 ''ab''] (- 1) None)
     = Threw TypeError (editorOf [paragraphBlock 0 ''ab''] (- 1) None)
   \<and> slashPressed (keyEvent OTHER False) (editorOf [paragraphBlock 0 ''ab''] (- 1) None)
     = Threw TypeError (editorOf [paragraphBlock 0 ''ab''] (- 1) None)
   \<and> dragOver \<lparr>target = None, dataTransfer = []\<rparr> (editorOf [paragraphBlock 0 ''ab''] 0 None)
     = Threw TypeError (editorOf [paragraphBlock 0 ''ab''] 0 None)
   \<and> dragLeave \<lparr>target = None, dataTransfer = []\<rparr> (editorOf [paragraphBlock 0 ''ab''] 0 None)
     = Threw TypeError (editorOf [paragraphBlock 0 ''ab''] 0 None)"
  by (simp add: delete_def slashPressed_def dragOver_def dragLeave_def getBlockByChildNode_def
        currentBlock_def blockAt_def editorOf_def)

section \<open>Cross-block selection by Shift and an arrow\<close>

lemma targets_toolbarClose [simp]:
  "nextInputTarget (toolbarClose st) = nextInputTarget st"
  "previousInputTarget (toolbarClose st) = previousInputTarget st"
  by (simp_all add: nextInputTarget_def previousInputTarget_def cong: option.case_cong if_cong)

lemma navigate_calls:
  "calls (snd (navigateNext st f)) = calls st @ [CaretNavigateNext f]"
  "calls (snd (navigatePrevious st f)) = calls st @ [CaretNavigatePrevious f]"
  "fst (navigateNext st f) = (nextInputTarget st \<noteq> None)"
  "fst (navigatePrevious st f) = (previousInputTarget st \<noteq> None)"
  by (simp_all add: navigateNext_def navigatePrevious_def Let_def split: option.splits)

lemma shift_right_path:
  assumes "shiftKey event" and "keyCode event = RIGHT"
  shows "\<exists>st'. arrowRightAndDown event st = Returned st'
           \<and> newCalls st st' =
                 [ToolbarClose,
                  if isRtl st then CaretNavigatePrevious False else CaretNavigateNext False]
                 @ (if (if isRtl st then previousInputTarget st else nextInputTarget st) \<noteq> None
                    then [PreventDefault] else [DelayUpdateCurrentInput, ClearSelection])"
proof -
  let ?st1 = "toolbarClose st"
  have nf: "\<not> isFlipperCombination event st"
    using assms by (simp add: isFlipperCombination_def)
  show ?thesis
  proof (cases "isRtl st")
    case True
    obtain m st2 where n: "navigatePrevious ?st1 False = (m, st2)"
      by (cases "navigatePrevious ?st1 False")
    have c: "calls st2 = calls st @ [ToolbarClose, CaretNavigatePrevious False]"
      and m: "m = (previousInputTarget st \<noteq> None)"
      using navigate_calls(2) [of ?st1 False] navigate_calls(4) [of ?st1 False]
      by (simp_all add: n)
    show ?thesis
      using assms nf True
      by (simp add: arrowRightAndDown_def Let_def n c m newCalls_def clearSelection_def emit_def)
  next
    case False
    obtain m st2 where n: "navigateNext ?st1 False = (m, st2)"
      by (cases "navigateNext ?st1 False")
    have c: "calls st2 = calls st @ [ToolbarClose, CaretNavigateNext False]"
      and m: "m = (nextInputTarget st \<noteq> None)"
      using navigate_calls(1) [of ?st1 False] navigate_calls(3) [of ?st1 False]
      by (simp_all add: n)
    show ?thesis
      using assms nf False
      by (simp add: arrowRightAndDown_def Let_def n c m newCalls_def clearSelection_def emit_def)
  qed
qed

lemma shift_down_path:
  assumes "shiftKey event" and "keyCode event = DOWN"
    and "(case currentBlock st of None \<Rightarrow> False
          | Some cb \<Rightarrow> isCaretAtEndOfInput st cb (currentInput cb)) \<or> anyBlockSelected st"
  shows "\<exists>st'. arrowRightAndDown event st = Returned st'
           \<and> newCalls st st' = [ToolbarClose, ToggleBlockSelectedState True]
           \<and> caret st' = caret st \<and> blocks st' = blocks st
           \<and> currentBlockIndex st' = currentBlockIndex st"
  using assms
  by (auto simp: arrowRightAndDown_def isFlipperCombination_def Let_def newCalls_def
        toggleBlockSelectedState_def split: option.splits)

text \<open>
  Claim C4, as amended: for every keydown of Shift together with Down, while the caret is
  at the end of its input or a multi-block selection is already active, the event is
  delegated to \<^verbatim>\<open>toggleBlockSelectedState\<close> and no caret movement happens: the
  handler makes two calls, closing the toolbar and the delegation, and caret, blocks and
  current index are as before. No flipper can own the key: with Shift held a key other
  than Tab is never a flipper combination. Shift together with Right is not delegated,
  in either layout direction and in every state: the handler closes the toolbar and
  takes the ordinary navigation path, \<^verbatim>\<open>Caret.navigateNext()\<close> in a left-to-right
  layout and \<^verbatim>\<open>Caret.navigatePrevious()\<close> in a right-to-left one, suppressing the
  default action when the navigation moved, and otherwise scheduling the update of the
  current input and clearing the block selection.
\<close>

theorem shift_down_delegates_shift_right_navigates:
  "(shiftKey event \<and> keyCode event = DOWN
      \<and> ((case currentBlock st of None \<Rightarrow> False
           | Some cb \<Rightarrow> isCaretAtEndOfInput st cb (currentInput cb)) \<or> anyBlockSelected st)
    \<longrightarrow> (\<exists>st'. arrowRightAndDown event st = Returned st'
           \<and> newCalls st st' = [ToolbarClose, ToggleBlockSelectedState True]
           \<and> caret st' = caret st \<and> blocks st' = blocks st
           \<and> currentBlockIndex st' = currentBlockIndex st))
   \<and> (shiftKey event \<and> keyCode event = RIGHT
    \<longrightarrow> (\<exists>st'. arrowRightAndDown event st = Returned st'
           \<and> newCalls st st' =
                 [ToolbarClose,
                  if isRtl st then CaretNavigatePrevious False else CaretNavigateNext False]
                 @ (if (if isRtl st then previousInputTarget st else nextInputTarget st) \<noteq> None
                    then [PreventDefault] else [DelayUpdateCurrentInput, ClearSelection])
           \<and> (\<forall>f. ToggleBlockSelectedState f \<notin> set (newCalls st st'))))"
proof (intro conjI impI)
  assume "shiftKey event \<and> keyCode event = DOWN
      \<and> ((case currentBlock st of None \<Rightarrow> False
           | Some cb \<Rightarrow> isCaretAtEndOfInput st cb (currentInput cb)) \<or> anyBlockSelected st)"
  then show "\<exists>st'. arrowRightAndDown event st = Returned st'
           \<and> newCalls st st' = [ToolbarClose, ToggleBlockSelectedState True]
           \<and> caret st' = caret st \<and> blocks st' = blocks st
           \<and> currentBlockIndex st' = currentBlockIndex st"
    by (intro shift_down_path) simp_all
next
  assume a: "shiftKey event \<and> keyCode event = RIGHT"
  then obtain st' where r: "arrowRightAndDown event st = Returned st'"
    and c: "newCalls st st' =
                 [ToolbarClose,
                  if isRtl st then CaretNavigatePrevious False else CaretNavigateNext False]
                 @ (if (if isRtl st then previousInputTarget st else nextInputTarget st) \<noteq> None
                    then [PreventDefault] else [DelayUpdateCurrentInput, ClearSelection])"
    using shift_right_path [of event st] by blast
  have "\<forall>f. ToggleBlockSelectedState f \<notin> set (newCalls st st')"
    unfolding c by simp
  with r c show "\<exists>st'. arrowRightAndDown event st = Returned st'
           \<and> newCalls st st' =
                 [ToolbarClose,
                  if isRtl st then CaretNavigatePrevious False else CaretNavigateNext False]
                 @ (if (if isRtl st then previousInputTarget st else nextInputTarget st) \<noteq> None
                    then [PreventDefault] else [DelayUpdateCurrentInput, ClearSelection])
           \<and> (\<forall>f. ToggleBlockSelectedState f \<notin> set (newCalls st st'))"
    by blast
qed

theorem shift_down_delegates_shift_right_navigates_witness:
  "shiftKey (keyEvent DOWN True) \<and> keyCode (keyEvent DOWN True) = DOWN
   \<and> currentBlock (docAbCd 0 (Some (0, 0, 2))) = Some (paragraphBlock 0 ''ab'')
   \<and> isCaretAtEndOfInput (docAbCd 0 (Some (0, 0, 2))) (paragraphBlock 0 ''ab'')
         (currentInput (paragraphBlock 0 ''ab''))
   \<and> newCalls (docAbCd 0 (Some (0, 0, 2)))
         (stateOf (arrowRightAndDown (keyEvent DOWN True) (docAbCd 0 (Some (0, 0, 2)))))
       = [ToolbarClose, ToggleBlockSelectedState True]
   \<and> caret (stateOf (arrowRightAndDown (keyEvent DOWN True) (docAbCd 0 (Some (0, 0, 2)))))
       = Some (0, 0, 2)
   \<and> shiftKey (keyEvent RIGHT True) \<and> keyCode (keyEvent RIGHT True) = RIGHT
   \<and> isRtl ((docAbCd 1 (Some (1, 0, 2)))\<lparr>isRtl := True\<rparr>)
   \<and> newCalls ((docAbCd 1 (Some (1, 0, 2)))\<lparr>isRtl := True\<rparr>)
         (stateOf (arrowRightAndDown (keyEvent RIGHT True)
            ((docAbCd 1 (Some (1, 0, 2)))\<lparr>isRtl := True\<rparr>)))
       = [ToolbarClose, CaretNavigatePrevious False, PreventDefault]
   \<and> newCalls (docAbCd 1 (Some (1, 0, 2)))
         (stateOf (arrowRightAndDown (keyEvent RIGHT True) (docAbCd 1 (Some (1, 0, 2)))))
       = [ToolbarClose, CaretNavigateNext False, DelayUpdateCurrentInput, ClearSelection]"
  using shift_down_delegates_shift_right_navigates
          [of "keyEvent DOWN True" "docAbCd 0 (Some (0, 0, 2))"]
        shift_down_delegates_shift_right_navigates
          [of "keyEvent RIGHT True" "(docAbCd 1 (Some (1, 0, 2)))\<lparr>isRtl := True\<rparr>"]
        shift_down_delegates_shift_right_navigates
          [of "keyEvent RIGHT True" "docAbCd 1 (Some (1, 0, 2))"]
  by (auto simp: sample_defs read_defs nextInputTarget_def previousInputTarget_def stateOf_def)

text \<open>
  The claim as stated also covers Shift with Right in a left-to-right layout. There the
  handler does not delegate: with the caret at the end of the first of two paragraphs it
  calls \<^verbatim>\<open>Caret.navigateNext()\<close>, the caret moves into the second paragraph, and
  \<^verbatim>\<open>toggleBlockSelectedState\<close> is not called.
\<close>

theorem shift_right_navigates_counterexample:
  "shiftKey (keyEvent RIGHT True)
   \<and> \<not> isRtl (docAbCd 0 (Some (0, 0, 2)))
   \<and> currentBlock (docAbCd 0 (Some (0, 0, 2))) = Some (paragraphBlock 0 ''ab'')
   \<and> isCaretAtEndOfInput (docAbCd 0 (Some (0, 0, 2))) (paragraphBlock 0 ''ab'') (Some 0)
   \<and> \<not> someToolbarOpened (docAbCd 0 (Some (0, 0, 2)))
   \<and> newCalls (docAbCd 0 (Some (0, 0, 2)))
        (stateOf (arrowRightAndDown (keyEvent RIGHT True) (docAbCd 0 (Some (0, 0, 2)))))
      = [ToolbarClose, CaretNavigateNext False, PreventDefault]
   \<and> caret (stateOf (arrowRightAndDown (keyEvent RIGHT True) (docAbCd 0 (Some (0, 0, 2)))))
      = Some (1, 0, 0)"
  by (simp add: sample_defs read_defs caret_defs stateOf_def arrowRightAndDown_def
        isFlipperCombination_def newCalls_def toolbarClose_def emit_def Let_def)

section \<open>When a key closes the toolbar\<close>

text \<open>
  Claim C6, as amended: \<^verbatim>\<open>needToolbarClosing\<close> returns false exactly when Shift is
  held, or the key is Tab, whether or not a toolbar is open, or the key is Enter while
  the toolbox, the block settings or the inline toolbar is open; it returns true for
  every other event.
\<close>

theorem needToolbarClosing_table:
  "needToolbarClosing event st =
     (\<not> (shiftKey event \<or> keyCode event = TAB \<or>
         (keyCode event = ENTER \<and>
            (toolboxOpened st \<or> blockSettingsOpened st \<or> inlineToolbarOpened st))))"
  by (auto simp: needToolbarClosing_def Let_def)

theorem needToolbarClosing_table_witness:
  "needToolbarClosing (keyEvent ENTER False)
      ((editorOf [paragraphBlock 0 ''ab''] 0 None)\<lparr>toolboxOpened := True\<rparr>) = False
   \<and> needToolbarClosing (keyEvent OTHER False) (editorOf [paragraphBlock 0 ''ab''] 0 None) = True"
  using needToolbarClosing_table [of "keyEvent ENTER False"
          "(editorOf [paragraphBlock 0 ''ab''] 0 None)\<lparr>toolboxOpened := True\<rparr>"]
        needToolbarClosing_table [of "keyEvent OTHER False" "editorOf [paragraphBlock 0 ''ab''] 0 None"]
  by (simp add: keyEvent_def editorOf_def)

text \<open>
  The claim as stated counts a Tab as an exception only when it cycles the items of an
  open toolbar. A plain Tab with every toolbar and overlay closed is then one of the
  other events, for which the predicate should be true; it is false.
\<close>

theorem needToolbarClosing_plain_tab_counterexample:
  "\<not> shiftKey (keyEvent TAB False)
   \<and> \<not> tabCyclesToolbarItems (keyEvent TAB False) (editorOf [paragraphBlock 0 ''ab''] 0 None)
   \<and> \<not> enterSelectsToolbarItem (keyEvent TAB False) (editorOf [paragraphBlock 0 ''ab''] 0 None)
   \<and> needToolbarClosing (keyEvent TAB False) (editorOf [paragraphBlock 0 ''ab''] 0 None) = False"
  by (simp add: keyEvent_def editorOf_def tabCyclesToolbarItems_def enterSelectsToolbarItem_def
        someToolbarOpened_def needToolbarClosing_def)

section \<open>Tab\<close>

text \<open>
  Claim C5, as amended: for every Tab keydown, if the inline toolbar is open the handler
  does nothing, and in particular the current index of the Block Sequence Store does not
  change; otherwise, also while the toolbox or the block settings are open, it attempts
  caret navigation to the previous input (Shift+Tab) or the next input (Tab) across the
  block sequence, suppressing the native Tab exactly when the navigation moved focus and
  letting it through when no navigable target exists.
\<close>

theorem tabPressed_inline_toolbar_or_navigation:
  "(inlineToolbarOpened st \<longrightarrow> tabPressed event st = Returned st) \<and>
   (\<not> inlineToolbarOpened st \<longrightarrow>
      (case (if shiftKey event then previousInputTarget st else nextInputTarget st) of
         None \<Rightarrow>
           tabPressed event st =
             Returned (emit (if shiftKey event then CaretNavigatePrevious True
                             else CaretNavigateNext True) st)
       | Some (k, i) \<Rightarrow>
           (\<exists>st'. tabPressed event st = Returned st'
              \<and> newCalls st st' =
                    [if shiftKey event then CaretNavigatePrevious True else CaretNavigateNext True,
                     PreventDefault]
              \<and> currentBlockIndex st' = int k
              \<and> caret st' = Some (bid (blocks st ! k), i,
                    if shiftKey event then length (inputs (blocks st ! k) ! i) else 0))))"
  by (auto simp: tabPressed_def navigateNext_def navigatePrevious_def Let_def newCalls_def
        split: option.splits)

theorem tabPressed_inline_toolbar_or_navigation_witness:
  "\<not> inlineToolbarOpened (docAbCd 0 (Some (0, 0, 0)))
   \<and> nextInputTarget (docAbCd 0 (Some (0, 0, 0))) = Some (1, 0)
   \<and> newCalls (docAbCd 0 (Some (0, 0, 0)))
        (stateOf (tabPressed (keyEvent TAB False) (docAbCd 0 (Some (0, 0, 0)))))
      = [CaretNavigateNext True, PreventDefault]
   \<and> inlineToolbarOpened ((docAbCd 0 (Some (0, 0, 0)))\<lparr>inlineToolbarOpened := True\<rparr>)
   \<and> tabPressed (keyEvent TAB False) ((docAbCd 0 (Some (0, 0, 0)))\<lparr>inlineToolbarOpened := True\<rparr>)
      = Returned ((docAbCd 0 (Some (0, 0, 0)))\<lparr>inlineToolbarOpened := True\<rparr>)"
  using tabPressed_inline_toolbar_or_navigation [of "docAbCd 0 (Some (0, 0, 0))" "keyEvent TAB False"]
    tabPressed_inline_toolbar_or_navigation
      [of "(docAbCd 0 (Some (0, 0, 0)))\<lparr>inlineToolbarOpened := True\<rparr>" "keyEvent TAB False"]
  by (auto simp: sample_defs read_defs nextInputTarget_def stateOf_def)

text \<open>
  The claim as stated has the handler do nothing while any overlay consumes Tab. The
  handler asks only whether the inline toolbar is open. With the toolbox open, one of its
  items focused and the inline toolbar closed, Tab in the first of two paragraphs
  navigates: the current index goes from 0 to 1 and the native Tab is suppressed.
\<close>

theorem tabPressed_toolbox_counterexample:
  "overlayConsumesTab toolboxFocused
   \<and> currentBlockIndex toolboxFocused = 0
   \<and> newCalls toolboxFocused (stateOf (tabPressed (keyEvent TAB False) toolboxFocused))
      = [CaretNavigateNext True, PreventDefault]
   \<and> currentBlockIndex (stateOf (tabPressed (keyEvent TAB False) toolboxFocused)) = 1"
  by (simp add: toolboxFocused_def sample_defs read_defs caret_defs stateOf_def tabPressed_def
        overlayConsumesTab_def newCalls_def emit_def Let_def)

section \<open>Backspace at the start of the document\<close>

lemma backspace_first_block:
  assumes "isCollapsed st" and "currentBlock st = Some cb" and "previousBlock st = None"
    and "currentInput cb = firstInput cb" and "isCaretAtStartOfInput st cb (firstInput cb)"
  shows "backspace P e st = Returned (toolbarClose (emit PreventDefault st))"
  using assms
  by (auto simp: backspace_def Let_def isCaretAtStartOfInput_def split: option.splits)

text \<open>
  Claim C8: pressing Backspace with a collapsed selection and the caret at the very start
  of the first input of the very first block, any number of times, produces no
  structural change: the block sequence, every block's content and the current index are
  the same after each press as before it. Each press suppresses the default action and
  closes the toolbar, and nothing else.
\<close>

theorem backspace_at_document_start_absorbed:
  assumes "isCollapsed st" and "currentBlock st = Some cb" and "previousBlock st = None"
    and "currentInput cb = firstInput cb" and "isCaretAtStartOfInput st cb (firstInput cb)"
  shows "blocks (backspaceTimes P e n st) = blocks st
         \<and> currentBlockIndex (backspaceTimes P e n st) = currentBlockIndex st
         \<and> caret (backspaceTimes P e n st) = caret st"
  using assms
proof (induction n arbitrary: st)
  case 0
  show ?case by simp
next
  case (Suc n)
  let ?st1 = "toolbarClose (emit PreventDefault st)"
  have step: "backspace P e st = Returned ?st1"
    using Suc.prems by (rule backspace_first_block)
  have "blocks (backspaceTimes P e n ?st1) = blocks ?st1
        \<and> currentBlockIndex (backspaceTimes P e n ?st1) = currentBlockIndex ?st1
        \<and> caret (backspaceTimes P e n ?st1) = caret ?st1"
    using Suc.prems by (intro Suc.IH) simp_all
  then show ?case
    by (simp add: step stateOf_def)
qed

theorem backspace_at_document_start_absorbed_witness:
  "isCollapsed (docAbCd 0 (Some (0, 0, 0)))
   \<and> currentBlock (docAbCd 0 (Some (0, 0, 0))) = Some (paragraphBlock 0 ''ab'')
   \<and> previousBlock (docAbCd 0 (Some (0, 0, 0))) = None
   \<and> currentInput (paragraphBlock 0 ''ab'') = firstInput (paragraphBlock 0 ''ab'')
   \<and> isCaretAtStartOfInput (docAbCd 0 (Some (0, 0, 0))) (paragraphBlock 0 ''ab'')
        (firstInput (paragraphBlock 0 ''ab''))
   \<and> blocks (backspaceTimes sameType (keyEvent BACKSPACE False) 3 (docAbCd 0 (Some (0, 0, 0))))
      = [paragraphBlock 0 ''ab'', paragraphBlock 1 ''cd'']
   \<and> currentBlockIndex
        (backspaceTimes sameType (keyEvent BACKSPACE False) 3 (docAbCd 0 (Some (0, 0, 0)))) = 0"
  using backspace_at_document_start_absorbed
    [of "docAbCd 0 (Some (0, 0, 0))" "paragraphBlock 0 ''ab''" sameType "keyEvent BACKSPACE False" 3]
  by (simp add: sample_defs read_defs)

section \<open>Backspace between two blocks\<close>

lemma concat_appendContent:
  "inputs t \<noteq> [] \<Longrightarrow> content (appendContent t s) = content t @ s"
proof -
  assume ne: "inputs t \<noteq> []"
  have "concat (butlast (inputs t) @ [last (inputs t)]) = concat (inputs t)"
    using ne by simp
  then show ?thesis
    by (simp add: content_def appendContent_def)
qed

lemma nonempty_has_input: "\<not> isEmpty b \<Longrightarrow> inputs b \<noteq> []"
  by (auto simp: isEmpty_def content_def)

lemma backspace_two_nonempty:
  assumes "isCollapsed st" and "currentBlock st = Some cb" and "previousBlock st = Some pb"
    and "currentInput cb = firstInput cb" and "isCaretAtStartOfInput st cb (firstInput cb)"
    and "\<not> isEmpty pb" and "\<not> isEmpty cb"
  shows "backspace P e st =
           Returned (if P pb cb
                     then mergeBlocks (toolbarClose (emit PreventDefault st)) pb cb
                     else setToBlock (toolbarClose (emit PreventDefault st)) pb END)"
  using assms
  by (auto simp: backspace_def Let_def isCaretAtStartOfInput_def split: option.splits)

lemma mergeBlocks_adjacent:
  assumes d: "distinct (map bid (blocks st))"
    and cur: "currentBlockIndex st = int (Suc j)" and len: "Suc j < length (blocks st)"
    and pb: "pb = blocks st ! j" and cb: "cb = blocks st ! Suc j"
    and ne: "inputs pb \<noteq> []"
  shows "blocks (mergeBlocks st pb cb) =
           take j (blocks st) @ [appendContent pb (content cb)] @ drop (Suc (Suc j)) (blocks st)"
    and "currentBlockIndex (mergeBlocks st pb cb) = int j"
    and "caret (mergeBlocks st pb cb) =
           Some (bid pb, length (inputs pb) - 1, length (last (inputs pb)))"
    and "calls (mergeBlocks st pb cb) =
           calls st @ [CaretFocus (bid pb) (length (inputs pb) - 1) False, ToolbarClose]"
proof -
  let ?bs = "blocks st"
  let ?m = "appendContent pb (content cb)"
  define F where "F = focus st pb (length (inputs pb) - 1) False"
  have j: "j < length ?bs"
    using len by simp
  have ip: "indexOf ?bs (bid pb) = Some j"
    unfolding pb using d j by (rule indexOf_nth)
  have ic: "indexOf ?bs (bid cb) = Some (Suc j)"
    unfolding cb using d len by (rule indexOf_nth)
  have "map bid (?bs[j := ?m]) = map bid ?bs"
    by (rule map_update_same) (simp add: appendContent_def pb)
  then have "indexOf (?bs[j := ?m]) (bid cb) = indexOf ?bs (bid cb)"
    by (rule indexOf_same_ids)
  then have iu: "indexOf (?bs[j := ?m]) (bid cb) = Some (Suc j)"
    by (simp only: ic)
  have li: "lastInput pb = Some (length (inputs pb) - 1)"
    using ne by (simp add: lastInput_def)
  have bF: "blocks F = ?bs" and cF: "currentBlockIndex F = int (Suc j)"
    and callsF: "calls F = calls st @ [CaretFocus (bid pb) (length (inputs pb) - 1) False]"
    and caretF: "caret F = Some (bid pb, length (inputs pb) - 1, length (last (inputs pb)))"
    using ne by (simp_all add: F_def focus_def cur last_conv_nth)
  have tk: "take (Suc j) (?bs[j := ?m]) = take j ?bs @ [?m]"
    using j by (simp add: take_Suc_conv_app_nth)
  have store: "storeMergeBlocks F pb cb =
      F\<lparr>blocks := take j ?bs @ [?m] @ drop (Suc (Suc j)) ?bs, currentBlockIndex := int j\<rparr>"
    using ne len
    by (simp add: storeMergeBlocks_def removeBlock_def Let_def bF cF ip ic iu tk
          pb [symmetric] cb [symmetric])
  have m: "mergeBlocks st pb cb = toolbarClose (storeMergeBlocks F pb cb)"
    by (simp add: mergeBlocks_def li F_def)
  show "blocks (mergeBlocks st pb cb) = take j ?bs @ [?m] @ drop (Suc (Suc j)) ?bs"
    by (simp add: m store)
  show "currentBlockIndex (mergeBlocks st pb cb) = int j"
    by (simp add: m store)
  show "caret (mergeBlocks st pb cb) =
           Some (bid pb, length (inputs pb) - 1, length (last (inputs pb)))"
    by (simp add: m store caretF)
  show "calls (mergeBlocks st pb cb) =
           calls st @ [CaretFocus (bid pb) (length (inputs pb) - 1) False, ToolbarClose]"
    by (simp add: m store callsF)
qed

text \<open>
  Claim C1: for every Backspace keydown where the selection is collapsed, the caret is at
  the start of the first input of the current block, and the previous and the current
  block both exist and are not empty: if the two blocks are mergeable, the current block
  is merged into the previous one, the final content is the concatenation of the two and
  the block count decreases by one; if they are not mergeable, both blocks stay intact
  and the caret moves to the end of the previous block.

  The mergeability policy is any predicate on two blocks. A block that is not empty has
  an input, so the private merge of the handlers never meets a target without a last
  input. In both cases the caret lands at the end, as it was before the key, of the last
  input of the previous block, which becomes the current block. Without a merge the
  calls are those every handled Backspace makes, suppressing the default action and
  closing the toolbar, and the placing of the caret; the blocks are as before, but for
  the previous block recording its last input as the focused one.
\<close>

theorem backspace_merges_or_moves:
  assumes "uniqueIds st" and "isCollapsed st"
    and "currentBlock st = Some cb" and "previousBlock st = Some pb"
    and "currentInput cb = firstInput cb" and "isCaretAtStartOfInput st cb (firstInput cb)"
    and "\<not> isEmpty pb" and "\<not> isEmpty cb"
  shows "\<exists>st'. backspace areBlocksMergeable event st = Returned st'
     \<and> currentBlockIndex st' = currentBlockIndex st - 1
     \<and> caret st' = Some (bid pb, length (inputs pb) - 1, length (last (inputs pb)))
     \<and> (if areBlocksMergeable pb cb
         then length (blocks st') + 1 = length (blocks st)
              \<and> blocks st' =
                    take (nat (currentBlockIndex st - 1)) (blocks st)
                    @ [appendContent pb (content cb)]
                    @ drop (nat (currentBlockIndex st + 1)) (blocks st)
              \<and> content (blocks st' ! nat (currentBlockIndex st - 1)) = content pb @ content cb
         else blocks st' =
                (blocks st)[nat (currentBlockIndex st - 1) := pb\<lparr>currentInput := lastInput pb\<rparr>]
              \<and> map content (blocks st') = map content (blocks st)
              \<and> newCalls st st' = [PreventDefault, ToolbarClose, CaretSetToBlock (bid pb) END])"
proof -
  let ?bs = "blocks st"
  let ?st1 = "toolbarClose (emit PreventDefault st)"
  from assms(3,4) obtain j where cur: "currentBlockIndex st = int (Suc j)"
    and len: "Suc j < length ?bs" and cb: "cb = ?bs ! Suc j" and pb: "pb = ?bs ! j"
    by (rule two_blocks)
  have d: "distinct (map bid ?bs)"
    using assms(1) by (simp add: uniqueIds_def)
  have ne: "inputs pb \<noteq> []"
    using assms(7) by (rule nonempty_has_input)
  have j: "j < length ?bs"
    using len by simp
  have n1: "nat (currentBlockIndex st - 1) = j" and n2: "nat (currentBlockIndex st + 1) = Suc (Suc j)"
    and c1: "currentBlockIndex st - 1 = int j"
    by (simp_all add: cur)
  have step: "backspace areBlocksMergeable event st =
           Returned (if areBlocksMergeable pb cb then mergeBlocks ?st1 pb cb
                     else setToBlock ?st1 pb END)"
    using assms(2-8) by (rule backspace_two_nonempty)
  show ?thesis
  proof (cases "areBlocksMergeable pb cb")
    case True
    define M where "M = mergeBlocks ?st1 pb cb"
    have bM: "blocks M = take j ?bs @ [appendContent pb (content cb)] @ drop (Suc (Suc j)) ?bs"
      and cM: "currentBlockIndex M = int j"
      and aM: "caret M = Some (bid pb, length (inputs pb) - 1, length (last (inputs pb)))"
      using mergeBlocks_adjacent [of ?st1 j pb cb] d cur len pb cb ne
      by (simp_all add: M_def)
    have lM: "length (blocks M) + 1 = length ?bs"
      using len by (simp add: bM)
    have nM: "blocks M ! j = appendContent pb (content cb)"
      using j by (simp add: bM nth_append)
    have "content (blocks M ! j) = content pb @ content cb"
      using ne by (simp add: nM concat_appendContent)
    with bM cM aM lM True show ?thesis
      by (intro exI [of _ M]) (simp add: step M_def [symmetric] n1 n2 c1)
  next
    case False
    define T where "T = setToBlock ?st1 pb END"
    have ip: "indexOf (blocks ?st1) (bid pb) = Some j"
      unfolding pb using d j by (simp add: indexOf_nth)
    have inp: "inputs (blocks ?st1 ! j) \<noteq> []"
      using ne by (simp add: pb)
    have bT: "blocks T = ?bs[j := pb\<lparr>currentInput := lastInput pb\<rparr>]"
      using setToBlock_blocks [OF ip, of END] ne
      by (simp add: T_def lastInput_def pb)
    have cT: "currentBlockIndex T = int j"
      using setToBlock_END(1) [OF ip inp] by (simp add: T_def)
    have aT: "caret T = Some (bid pb, length (inputs pb) - 1, length (last (inputs pb)))"
      using setToBlock_END(3) [OF ip inp] by (simp add: T_def pb)
    have kT: "calls T = calls st @ [PreventDefault, ToolbarClose, CaretSetToBlock (bid pb) END]"
      by (simp add: T_def)
    have mT: "map content (blocks T) = map content ?bs"
      unfolding bT by (rule map_update_same) (simp add: content_def pb)
    from bT cT aT kT mT False show ?thesis
      by (intro exI [of _ T]) (simp add: step T_def [symmetric] n1 c1 newCalls_def)
  qed
qed

theorem backspace_merges_or_moves_witness:
  "uniqueIds (docAbCd 1 (Some (1, 0, 0))) \<and> isCollapsed (docAbCd 1 (Some (1, 0, 0)))
   \<and> currentBlock (docAbCd 1 (Some (1, 0, 0))) = Some (paragraphBlock 1 ''cd'')
   \<and> previousBlock (docAbCd 1 (Some (1, 0, 0))) = Some (paragraphBlock 0 ''ab'')
   \<and> isCaretAtStartOfInput (docAbCd 1 (Some (1, 0, 0))) (paragraphBlock 1 ''cd'')
         (firstInput (paragraphBlock 1 ''cd''))
   \<and> \<not> isEmpty (paragraphBlock 0 ''ab'') \<and> \<not> isEmpty (paragraphBlock 1 ''cd'')
   \<and> sameType (paragraphBlock 0 ''ab'') (paragraphBlock 1 ''cd'')
   \<and> map content (blocks (stateOf
         (backspace sameType (keyEvent BACKSPACE False) (docAbCd 1 (Some (1, 0, 0))))))
       = [''abcd'']
   \<and> map content (blocks (stateOf
         (backspace (\<lambda>a b. False) (keyEvent BACKSPACE False) (docAbCd 1 (Some (1, 0, 0))))))
       = [''ab'', ''cd'']
   \<and> caret (stateOf
         (backspace (\<lambda>a b. False) (keyEvent BACKSPACE False) (docAbCd 1 (Some (1, 0, 0)))))
       = Some (0, 0, 2)"
  using backspace_merges_or_moves
          [of "docAbCd 1 (Some (1, 0, 0))" "paragraphBlock 1 ''cd''" "paragraphBlock 0 ''ab''"
              sameType "keyEvent BACKSPACE False"]
        backspace_merges_or_moves
          [of "docAbCd 1 (Some (1, 0, 0))" "paragraphBlock 1 ''cd''" "paragraphBlock 0 ''ab''"
              "\<lambda>a b. False" "keyEvent BACKSPACE False"]
  by (auto simp: sample_defs read_defs uniqueIds_def sameType_def appendContent_def stateOf_def)

section \<open>Enter\<close>

lemma enterFinish_focus:
  assumes "indexOf (blocks st) (bid b) = Some m" and "inputs (blocks st ! m) \<noteq> []"
  shows "\<exists>st'. enterFinish st b = Returned st'
     \<and> blocks st' = (blocks st)[m := (blocks st ! m)\<lparr>currentInput := Some 0\<rparr>]
     \<and> currentBlockIndex st' = int m
     \<and> caret st' = Some (bid b, 0, 0)
     \<and> toolbarOpened st' \<and> toolbarBlock st' = Some (bid b)
     \<and> calls st' = calls st @
           [CaretSetToBlock (bid b) DEFAULT, ToolbarMoveAndOpen (Some (bid b)), PreventDefault]"
  using assms indexOf_Some [OF assms(1)]
  by (simp add: enterFinish_def setToBlock_def Let_def toolbarMoveAndOpen_def emit_def
        placeCaret_def)

lemma enterFinish_at:
  assumes "blocks S = xs @ y # ys" and "bid y \<notin> bid ` set xs" and "inputs y \<noteq> []"
  shows "\<exists>st'. enterFinish S y = Returned st'
     \<and> blocks st' = xs @ y\<lparr>currentInput := Some 0\<rparr> # ys
     \<and> currentBlockIndex st' = int (length xs)
     \<and> caret st' = Some (bid y, 0, 0)
     \<and> toolbarOpened st' \<and> toolbarBlock st' = Some (bid y)
     \<and> calls st' = calls S @
           [CaretSetToBlock (bid y) DEFAULT, ToolbarMoveAndOpen (Some (bid y)), PreventDefault]"
proof -
  have i: "indexOf (blocks S) (bid y) = Some (length xs)"
    unfolding assms(1) using assms(2) by (simp add: indexOf_at)
  have n: "inputs (blocks S ! length xs) \<noteq> []"
    using assms(3) by (simp add: assms(1))
  from enterFinish_focus [OF i n] show ?thesis
    by (simp add: assms(1))
qed

lemma enter_guards:
  assumes "currentBlock st = Some cb" and "\<not> isLineBreaksEnabled cb"
    and "\<not> (someToolbarOpened st \<and> someFlipperButtonFocused st)"
    and "\<not> (shiftKey event \<and> \<not> isIosDevice st)"
  shows "enter event st =
     (if isCaretAtStartOfInput st cb (currentInput cb) \<and> \<not> hasMedia cb
      then enterFinish (snd (insertDefaultBlockAtIndex st (currentBlockIndex st) False)) cb
      else if isCaretAtEndOfInput st cb (currentInput cb)
      then enterFinish (snd (insertDefaultBlockAtIndex st (currentBlockIndex st + 1) False))
             (composeDefault st)
      else (case split st of
              None \<Rightarrow> Threw SplitWithoutCaret st
            | Some (nb, st1) \<Rightarrow> enterFinish st1 nb))"
  using assms
  by (auto simp: enter_def insertDefaultBlockAtIndex_def Let_def isCaretAtStartOfInput_def
        isCaretAtEndOfInput_def split: option.splits)

text \<open>
  Claim C3, as amended: for every Enter keydown that passes the guards (a current block
  exists, its tool does not enable line breaks, no flipper button of an open toolbar is
  focused, and it is not a plain Shift+Enter on a platform other than iOS): if the caret
  is at the logical start of the focused input, whichever input of the block that is,
  and the block has no media, a new empty default block is inserted before the current
  position and focus stays on the original block; else if the caret is at the logical
  end of the focused input, a new empty default block is inserted after and focus moves
  to it; otherwise, the caret being inside the current block, the block is split at the
  caret and focus moves to the second half; in all three cases the toolbar is moved and
  opened over the focused block and the default browser action is suppressed.

  Blocks are unique by identity. In the third case the two halves have the type of the
  original and their contents concatenate to its content.
\<close>

theorem enter_inserts_or_splits:
  assumes "uniqueIds st" and "currentBlock st = Some cb" and "\<not> isLineBreaksEnabled cb"
    and "\<not> (someToolbarOpened st \<and> someFlipperButtonFocused st)"
    and "\<not> (shiftKey event \<and> \<not> isIosDevice st)"
  shows "(isCaretAtStartOfInput st cb (currentInput cb) \<and> \<not> hasMedia cb \<longrightarrow>
           (\<exists>st'. enter event st = Returned st'
              \<and> blocks st' =
                    take (nat (currentBlockIndex st)) (blocks st)
                    @ [composeDefault st, cb\<lparr>currentInput := Some 0\<rparr>]
                    @ drop (Suc (nat (currentBlockIndex st))) (blocks st)
              \<and> isEmpty (composeDefault st)
              \<and> currentBlockIndex st' = currentBlockIndex st + 1
              \<and> caret st' = Some (bid cb, 0, 0)
              \<and> toolbarOpened st' \<and> toolbarBlock st' = Some (bid cb)
              \<and> newCalls st st' =
                    [CaretSetToBlock (bid cb) DEFAULT, ToolbarMoveAndOpen (Some (bid cb)),
                     PreventDefault]))
      \<and> (\<not> (isCaretAtStartOfInput st cb (currentInput cb) \<and> \<not> hasMedia cb)
           \<and> isCaretAtEndOfInput st cb (currentInput cb) \<longrightarrow>
           (\<exists>st'. enter event st = Returned st'
              \<and> blocks st' =
                    take (Suc (nat (currentBlockIndex st))) (blocks st)
                    @ [(composeDefault st)\<lparr>currentInput := Some 0\<rparr>]
                    @ drop (Suc (nat (currentBlockIndex st))) (blocks st)
              \<and> isEmpty (composeDefault st)
              \<and> currentBlockIndex st' = currentBlockIndex st + 1
              \<and> caret st' = Some (nextId st, 0, 0)
              \<and> toolbarOpened st' \<and> toolbarBlock st' = Some (nextId st)
              \<and> newCalls st st' =
                    [CaretSetToBlock (nextId st) DEFAULT, ToolbarMoveAndOpen (Some (nextId st)),
                     PreventDefault]))
      \<and> (\<not> (isCaretAtStartOfInput st cb (currentInput cb) \<and> \<not> hasMedia cb)
           \<and> \<not> isCaretAtEndOfInput st cb (currentInput cb)
           \<and> caret st = Some (bid cb, i, off) \<and> i < length (inputs cb)
           \<and> off \<le> length (inputs cb ! i) \<longrightarrow>
           (\<exists>st' a b. enter event st = Returned st'
              \<and> blocks st' =
                    take (nat (currentBlockIndex st)) (blocks st)
                    @ [a, b]
                    @ drop (Suc (nat (currentBlockIndex st))) (blocks st)
              \<and> inputs a = take i (inputs cb) @ [take off (inputs cb ! i)]
              \<and> inputs b = drop off (inputs cb ! i) # drop (Suc i) (inputs cb)
              \<and> content a @ content b = content cb
              \<and> toolName a = toolName cb \<and> toolName b = toolName cb
              \<and> bid a = bid cb \<and> bid b = nextId st
              \<and> currentBlockIndex st' = currentBlockIndex st + 1
              \<and> caret st' = Some (nextId st, 0, 0)
              \<and> toolbarOpened st' \<and> toolbarBlock st' = Some (nextId st)
              \<and> newCalls st st' =
                    [CaretSetToBlock (nextId st) DEFAULT, ToolbarMoveAndOpen (Some (nextId st)),
                     PreventDefault]))"
proof -
  let ?bs = "blocks st"
  let ?nb = "composeDefault st"
  from assms(2) obtain k where cur: "currentBlockIndex st = int k" and k: "k < length ?bs"
    and cb: "cb = ?bs ! k"
    by (rule current_block)
  have nk: "nat (currentBlockIndex st) = k"
    by (simp add: cur)
  have d: "distinct (map bid ?bs)" and fr: "list_all (\<lambda>b. bid b < nextId st) ?bs"
    using assms(1) by (simp_all add: uniqueIds_def)
  have fresh: "nextId st \<notin> bid ` set ?bs"
    using fr by (rule fresh_absent)
  have before: "bid cb \<notin> bid ` set (take k ?bs)"
    unfolding cb using d k by (rule distinct_before)
  have cb_in: "cb \<in> set ?bs"
    using k by (simp add: cb)
  have cb_old: "bid cb \<noteq> nextId st"
    using fresh cb_in by (metis image_eqI)
  have fresh_take: "nextId st \<notin> bid ` set (take n ?bs)" for n
    using fresh by (auto dest: in_set_takeD)
  have g: "enter event st =
     (if isCaretAtStartOfInput st cb (currentInput cb) \<and> \<not> hasMedia cb
      then enterFinish (snd (insertDefaultBlockAtIndex st (currentBlockIndex st) False)) cb
      else if isCaretAtEndOfInput st cb (currentInput cb)
      then enterFinish (snd (insertDefaultBlockAtIndex st (currentBlockIndex st + 1) False)) ?nb
      else (case split st of
              None \<Rightarrow> Threw SplitWithoutCaret st
            | Some (nb, st1) \<Rightarrow> enterFinish st1 nb))"
    using assms(2-5) by (rule enter_guards)
  have e: "isEmpty ?nb" and nb_in: "inputs ?nb \<noteq> []" and nb_id: "bid ?nb = nextId st"
    by (simp_all add: composeDefault_def isEmpty_def content_def)
  have dropk: "drop k ?bs = cb # drop (Suc k) ?bs"
    using k by (simp add: cb Cons_nth_drop_Suc)
  show ?thesis
  proof (intro conjI impI)
    assume a: "isCaretAtStartOfInput st cb (currentInput cb) \<and> \<not> hasMedia cb"
    define S where "S = snd (insertDefaultBlockAtIndex st (int k) False)"
    have g1: "enter event st = enterFinish S cb"
      by (subst g, subst if_P [OF a]) (simp add: S_def cur)
    have bS: "blocks S = (take k ?bs @ [?nb]) @ cb # drop (Suc k) ?bs"
      and cS: "calls S = calls st"
      by (simp_all add: S_def insertDefaultBlockAtIndex_def Let_def cur dropk)
    have 1: "bid cb \<notin> bid ` set (take k ?bs @ [?nb])"
      using before cb_old by (simp add: nb_id)
    have 2: "inputs cb \<noteq> []"
      using a by (auto simp: isCaretAtStartOfInput_def split: option.splits)
    from enterFinish_at [OF bS 1 2] obtain st' where
      "enterFinish S cb = Returned st'"
      "blocks st' = (take k ?bs @ [?nb]) @ cb\<lparr>currentInput := Some 0\<rparr> # drop (Suc k) ?bs"
      "currentBlockIndex st' = int (length (take k ?bs @ [?nb]))"
      "caret st' = Some (bid cb, 0, 0)" "toolbarOpened st'" "toolbarBlock st' = Some (bid cb)"
      "calls st' = calls S @
         [CaretSetToBlock (bid cb) DEFAULT, ToolbarMoveAndOpen (Some (bid cb)), PreventDefault]"
      by blast
    with a k e show "\<exists>st'. enter event st = Returned st'
              \<and> blocks st' =
                    take (nat (currentBlockIndex st)) (blocks st)
                    @ [composeDefault st, cb\<lparr>currentInput := Some 0\<rparr>]
                    @ drop (Suc (nat (currentBlockIndex st))) (blocks st)
              \<and> isEmpty (composeDefault st)
              \<and> currentBlockIndex st' = currentBlockIndex st + 1
              \<and> caret st' = Some (bid cb, 0, 0)
              \<and> toolbarOpened st' \<and> toolbarBlock st' = Some (bid cb)
              \<and> newCalls st st' =
                    [CaretSetToBlock (bid cb) DEFAULT, ToolbarMoveAndOpen (Some (bid cb)),
                     PreventDefault]"
      by (intro exI [of _ st']) (simp add: g1 nk cur cS newCalls_def)
  next
    assume a: "\<not> (isCaretAtStartOfInput st cb (currentInput cb) \<and> \<not> hasMedia cb)
           \<and> isCaretAtEndOfInput st cb (currentInput cb)"
    define S where "S = snd (insertDefaultBlockAtIndex st (int k + 1) False)"
    from a have ns: "\<not> (isCaretAtStartOfInput st cb (currentInput cb) \<and> \<not> hasMedia cb)"
      and at_end: "isCaretAtEndOfInput st cb (currentInput cb)"
      by blast+
    have g2: "enter event st = enterFinish S ?nb"
      by (subst g, subst if_not_P [OF ns], subst if_P [OF at_end]) (simp add: S_def cur)
    have nat1: "nat (int k + 1) = Suc k"
      by simp
    have bS: "blocks S = take (Suc k) ?bs @ ?nb # drop (Suc k) ?bs"
      and cS: "calls S = calls st"
      by (simp_all add: S_def insertDefaultBlockAtIndex_def Let_def cur nat1)
    have 1: "bid ?nb \<notin> bid ` set (take (Suc k) ?bs)"
      using fresh_take [of "Suc k"] by (simp only: nb_id not_False_eq_True)
    from enterFinish_at [OF bS 1 nb_in] obtain st' where
      "enterFinish S ?nb = Returned st'"
      "blocks st' = take (Suc k) ?bs @ ?nb\<lparr>currentInput := Some 0\<rparr> # drop (Suc k) ?bs"
      "currentBlockIndex st' = int (length (take (Suc k) ?bs))"
      "caret st' = Some (bid ?nb, 0, 0)" "toolbarOpened st'" "toolbarBlock st' = Some (bid ?nb)"
      "calls st' = calls S @
         [CaretSetToBlock (bid ?nb) DEFAULT, ToolbarMoveAndOpen (Some (bid ?nb)), PreventDefault]"
      by blast
    with a k e show "\<exists>st'. enter event st = Returned st'
              \<and> blocks st' =
                    take (Suc (nat (currentBlockIndex st))) (blocks st)
                    @ [(composeDefault st)\<lparr>currentInput := Some 0\<rparr>]
                    @ drop (Suc (nat (currentBlockIndex st))) (blocks st)
              \<and> isEmpty (composeDefault st)
              \<and> currentBlockIndex st' = currentBlockIndex st + 1
              \<and> caret st' = Some (nextId st, 0, 0)
              \<and> toolbarOpened st' \<and> toolbarBlock st' = Some (nextId st)
              \<and> newCalls st st' =
                    [CaretSetToBlock (nextId st) DEFAULT, ToolbarMoveAndOpen (Some (nextId st)),
                     PreventDefault]"
      by (intro exI [of _ st'])
         (simp add: g2 nk cur cS newCalls_def nb_id min_absorb2)
  next
    assume a: "\<not> (isCaretAtStartOfInput st cb (currentInput cb) \<and> \<not> hasMedia cb)
           \<and> \<not> isCaretAtEndOfInput st cb (currentInput cb)
           \<and> caret st = Some (bid cb, i, off) \<and> i < length (inputs cb)
           \<and> off \<le> length (inputs cb ! i)"
    define a1 where "a1 = cb\<lparr>inputs := take i (inputs cb) @ [take off (inputs cb ! i)]\<rparr>"
    define b1 where "b1 = cb\<lparr>bid := nextId st,
                                inputs := drop off (inputs cb ! i) # drop (Suc i) (inputs cb),
                                currentInput := None, dropTarget := False\<rparr>"
    define S where "S = st\<lparr>blocks := take k ?bs @ [a1, b1] @ drop (Suc k) ?bs,
                               nextId := Suc (nextId st)\<rparr>"
    from a have ns: "\<not> (isCaretAtStartOfInput st cb (currentInput cb) \<and> \<not> hasMedia cb)"
      and not_end: "\<not> isCaretAtEndOfInput st cb (currentInput cb)"
      by blast+
    have sp: "split st = Some (b1, S)"
      using a assms(2)
      by (simp add: split_def Let_def nk a1_def b1_def S_def)
    have g3: "enter event st = enterFinish S b1"
      by (subst g, subst if_not_P [OF ns], subst if_not_P [OF not_end]) (simp add: sp)
    have bS: "blocks S = (take k ?bs @ [a1]) @ b1 # drop (Suc k) ?bs"
      and cS: "calls S = calls st"
      by (simp_all add: S_def)
    have 1: "bid b1 \<notin> bid ` set (take k ?bs @ [a1])"
      using fresh_take [of k] cb_old by (simp add: b1_def a1_def)
    have 2: "inputs b1 \<noteq> []"
      by (simp add: b1_def)
    have "concat (take i (inputs cb)) @ take off (inputs cb ! i) @ drop off (inputs cb ! i)
            @ concat (drop (Suc i) (inputs cb))
          = concat (take i (inputs cb) @ inputs cb ! i # drop (Suc i) (inputs cb))"
      by simp
    also have "\<dots> = concat (inputs cb)"
      using a by (simp add: id_take_nth_drop [symmetric])
    finally have cc: "content a1 @ content b1 = content cb"
      by (simp add: content_def a1_def b1_def)
    from enterFinish_at [OF bS 1 2] obtain st' where
      "enterFinish S b1 = Returned st'"
      "blocks st' = (take k ?bs @ [a1]) @ b1\<lparr>currentInput := Some 0\<rparr> # drop (Suc k) ?bs"
      "currentBlockIndex st' = int (length (take k ?bs @ [a1]))"
      "caret st' = Some (bid b1, 0, 0)" "toolbarOpened st'" "toolbarBlock st' = Some (bid b1)"
      "calls st' = calls S @
         [CaretSetToBlock (bid b1) DEFAULT, ToolbarMoveAndOpen (Some (bid b1)), PreventDefault]"
      by blast
    with a k cc show "\<exists>st' a b. enter event st = Returned st'
              \<and> blocks st' =
                    take (nat (currentBlockIndex st)) (blocks st)
                    @ [a, b]
                    @ drop (Suc (nat (currentBlockIndex st))) (blocks st)
              \<and> inputs a = take i (inputs cb) @ [take off (inputs cb ! i)]
              \<and> inputs b = drop off (inputs cb ! i) # drop (Suc i) (inputs cb)
              \<and> content a @ content b = content cb
              \<and> toolName a = toolName cb \<and> toolName b = toolName cb
              \<and> bid a = bid cb \<and> bid b = nextId st
              \<and> currentBlockIndex st' = currentBlockIndex st + 1
              \<and> caret st' = Some (nextId st, 0, 0)
              \<and> toolbarOpened st' \<and> toolbarBlock st' = Some (nextId st)
              \<and> newCalls st st' =
                    [CaretSetToBlock (nextId st) DEFAULT, ToolbarMoveAndOpen (Some (nextId st)),
                     PreventDefault]"
      by (intro exI [of _ st'] exI [of _ a1] exI [of _ "b1\<lparr>currentInput := Some 0\<rparr>"])
         (simp add: g3 nk cur cS newCalls_def, simp add: a1_def b1_def content_def)
  qed
qed

theorem enter_inserts_or_splits_witness:
  "uniqueIds (docAbCd 1 (Some (1, 0, 0)))
   \<and> currentBlock (docAbCd 1 (Some (1, 0, 0))) = Some (paragraphBlock 1 ''cd'')
   \<and> isCaretAtStartOfInput (docAbCd 1 (Some (1, 0, 0))) (paragraphBlock 1 ''cd'') (Some 0)
   \<and> map content (blocks (stateOf (enter (keyEvent ENTER False) (docAbCd 1 (Some (1, 0, 0))))))
       = [''ab'', [], ''cd'']
   \<and> currentBlockIndex (stateOf (enter (keyEvent ENTER False) (docAbCd 1 (Some (1, 0, 0))))) = 2
   \<and> isCaretAtEndOfInput (docAbCd 0 (Some (0, 0, 2))) (paragraphBlock 0 ''ab'') (Some 0)
   \<and> map content (blocks (stateOf (enter (keyEvent ENTER False) (docAbCd 0 (Some (0, 0, 2))))))
       = [''ab'', [], ''cd'']
   \<and> currentBlockIndex (stateOf (enter (keyEvent ENTER False) (docAbCd 0 (Some (0, 0, 2))))) = 1
   \<and> map content (blocks (stateOf (enter (keyEvent ENTER False)
         (editorOf [paragraphBlock 0 ''abcd''] 0 (Some (0, 0, 2))))))
       = [''ab'', ''cd'']
   \<and> currentBlockIndex (stateOf (enter (keyEvent ENTER False)
         (editorOf [paragraphBlock 0 ''abcd''] 0 (Some (0, 0, 2))))) = 1"
  using enter_inserts_or_splits
          [of "docAbCd 1 (Some (1, 0, 0))" "paragraphBlock 1 ''cd''" "keyEvent ENTER False" 0 0]
        enter_inserts_or_splits
          [of "docAbCd 0 (Some (0, 0, 2))" "paragraphBlock 0 ''ab''" "keyEvent ENTER False" 0 2]
        enter_inserts_or_splits
          [of "editorOf [paragraphBlock 0 ''abcd''] 0 (Some (0, 0, 2))" "paragraphBlock 0 ''abcd''"
              "keyEvent ENTER False" 0 2]
  by (auto simp: sample_defs read_defs uniqueIds_def composeDefault_def stateOf_def)

text \<open>
  The claim as stated tests the caret against the start and the end of the block. The
  handler tests it against the focused input. In a quote with the caret at the start of
  its caption the caret is neither at the start nor at the end of the block, so the
  claim has the block split at the caret, which would leave the quote text in the first
  half and the caption in the second; the handler inserts an empty default block before
  the quote and leaves the quote whole.
\<close>

theorem enter_at_caption_start_counterexample:
  "currentBlock captionStart = Some (quoteBlock 0 ''ab'' ''cd'' 1)
   \<and> \<not> isLineBreaksEnabled (quoteBlock 0 ''ab'' ''cd'' 1)
   \<and> \<not> hasMedia (quoteBlock 0 ''ab'' ''cd'' 1)
   \<and> \<not> someToolbarOpened captionStart
   \<and> \<not> shiftKey (keyEvent ENTER False)
   \<and> \<not> isCaretAtStartOfBlock captionStart (quoteBlock 0 ''ab'' ''cd'' 1)
   \<and> \<not> isCaretAtEndOfBlock captionStart (quoteBlock 0 ''ab'' ''cd'' 1)
   \<and> map inputs (blocks (stateOf (enter (keyEvent ENTER False) captionStart)))
       = [ [''''], [''ab'', ''cd''] ]
   \<and> currentBlockIndex (stateOf (enter (keyEvent ENTER False) captionStart)) = 1
   \<and> map_option (\<lambda>r. map inputs (blocks (snd r))) (split captionStart)
       = Some [ [''ab'', ''''], [''cd''] ]"
  by (simp add: captionStart_def sample_defs read_defs caret_defs isCaretAtStartOfBlock_def
        isCaretAtEndOfBlock_def enter_def enterFinish_def insertDefaultBlockAtIndex_def
        composeDefault_def toolbarMoveAndOpen_def split_def emit_def stateOf_def Let_def)

section \<open>Drop\<close>

lemma processDrop_found:
  assumes "target dropEvent = Some n" and "indexOf (blocks st) n = Some k"
  shows "processDrop dropEvent st =
           Returned (emit (ProcessDataTransfer (dataTransfer dropEvent) True)
             (setToBlock
                ((if isAtEditor st \<and> \<not> isCollapsed st \<and> isStartedAtEditor st
                  then emit ExecCommandDelete
                         ((emit PreventDefault st)
                            \<lparr>blocks := map (\<lambda>b. b\<lparr>dropTarget := False\<rparr>) (blocks st)\<rparr>)
                  else (emit PreventDefault st)
                         \<lparr>blocks := map (\<lambda>b. b\<lparr>dropTarget := False\<rparr>) (blocks st)\<rparr>)
                   \<lparr>isStartedAtEditor := False, currentBlockIndex := int k\<rparr>)
                (map (\<lambda>b. b\<lparr>dropTarget := False\<rparr>) (blocks st) ! k) END))"
  using assms
  by (simp add: processDrop_def Let_def setCurrentBlockByChildNode_def)

lemma processDrop_fallback:
  assumes "getBlockByChildNode st (target dropEvent) = None" and "blocks st \<noteq> []"
    and "distinct (map bid (blocks st))"
  shows "processDrop dropEvent st =
           Returned (emit (ProcessDataTransfer (dataTransfer dropEvent) True)
             (setToBlock
                ((if isAtEditor st \<and> \<not> isCollapsed st \<and> isStartedAtEditor st
                  then emit ExecCommandDelete
                         ((emit PreventDefault st)
                            \<lparr>blocks := map (\<lambda>b. b\<lparr>dropTarget := False\<rparr>) (blocks st)\<rparr>)
                  else (emit PreventDefault st)
                         \<lparr>blocks := map (\<lambda>b. b\<lparr>dropTarget := False\<rparr>) (blocks st)\<rparr>)
                   \<lparr>isStartedAtEditor := False, currentBlockIndex := int (length (blocks st) - 1)\<rparr>)
                (map (\<lambda>b. b\<lparr>dropTarget := False\<rparr>) (blocks st) ! (length (blocks st) - 1)) END))"
proof -
  let ?bs = "blocks st"
  let ?k = "length ?bs - 1"
  have k: "?k < length ?bs"
    using assms(2) by simp
  have idx: "indexOf ?bs (bid (?bs ! ?k)) = Some ?k"
    using assms(3) k by (rule indexOf_nth)
  have none: "(case target dropEvent of None \<Rightarrow> None | Some n \<Rightarrow> indexOf ?bs n) = None"
    using assms(1) by (simp add: getBlockByChildNode_def split: option.splits)
  have nat: "nat (int (length ?bs) - 1) = ?k"
    by simp
  show ?thesis
    using none k idx assms(2)
    by (simp add: processDrop_def Let_def setCurrentBlockByChildNode_def lastBlock_def blockAt_def
          nat split: option.splits)
qed

lemma processDrop_resolved:
  assumes "distinct (map bid (blocks st))" and "blocks st \<noteq> []"
  shows "dropTargetIndex st dropEvent < length (blocks st)"
    and "processDrop dropEvent st =
           Returned (emit (ProcessDataTransfer (dataTransfer dropEvent) True)
             (setToBlock
                ((if isAtEditor st \<and> \<not> isCollapsed st \<and> isStartedAtEditor st
                  then emit ExecCommandDelete
                         ((emit PreventDefault st)
                            \<lparr>blocks := map (\<lambda>b. b\<lparr>dropTarget := False\<rparr>) (blocks st)\<rparr>)
                  else (emit PreventDefault st)
                         \<lparr>blocks := map (\<lambda>b. b\<lparr>dropTarget := False\<rparr>) (blocks st)\<rparr>)
                   \<lparr>isStartedAtEditor := False,
                    currentBlockIndex := int (dropTargetIndex st dropEvent)\<rparr>)
                (map (\<lambda>b. b\<lparr>dropTarget := False\<rparr>) (blocks st) ! dropTargetIndex st dropEvent)
                END))"
proof -
  show "dropTargetIndex st dropEvent < length (blocks st)"
    using assms(2) by (auto simp: dropTargetIndex_def dest: indexOf_Some split: option.splits)
next
  show "processDrop dropEvent st =
           Returned (emit (ProcessDataTransfer (dataTransfer dropEvent) True)
             (setToBlock
                ((if isAtEditor st \<and> \<not> isCollapsed st \<and> isStartedAtEditor st
                  then emit ExecCommandDelete
                         ((emit PreventDefault st)
                            \<lparr>blocks := map (\<lambda>b. b\<lparr>dropTarget := False\<rparr>) (blocks st)\<rparr>)
                  else (emit PreventDefault st)
                         \<lparr>blocks := map (\<lambda>b. b\<lparr>dropTarget := False\<rparr>) (blocks st)\<rparr>)
                   \<lparr>isStartedAtEditor := False,
                    currentBlockIndex := int (dropTargetIndex st dropEvent)\<rparr>)
                (map (\<lambda>b. b\<lparr>dropTarget := False\<rparr>) (blocks st) ! dropTargetIndex st dropEvent)
                END))"
  proof (cases "getBlockByChildNode st (target dropEvent)")
    case None
    then have "dropTargetIndex st dropEvent = length (blocks st) - 1"
      by (simp add: getBlockByChildNode_def dropTargetIndex_def split: option.splits)
    with processDrop_fallback [OF None assms(2) assms(1)] show ?thesis
      by simp
  next
    case (Some b)
    then obtain n k where n: "target dropEvent = Some n" and k: "indexOf (blocks st) n = Some k"
      by (auto simp: getBlockByChildNode_def split: option.splits)
    then have "dropTargetIndex st dropEvent = k"
      by (simp add: dropTargetIndex_def)
    with processDrop_found [OF n k] show ?thesis
      by simp
  qed
qed

lemma processDrop_returns:
  assumes "blocks st \<noteq> []"
  shows "\<exists>st'. processDrop dropEvent st = Returned st'"
proof -
  let ?bs = "blocks st"
  have "?bs ! (length ?bs - 1) \<in> set ?bs"
    using assms by simp
  then obtain j where "indexOf ?bs (bid (?bs ! (length ?bs - 1))) = Some j"
    using indexOf_member by blast
  moreover have "nat (int (length ?bs) - 1) = length ?bs - 1"
    by simp
  moreover have "length ?bs - 1 < length ?bs"
    using assms by simp
  ultimately show ?thesis
    using assms
    by (simp add: processDrop_def Let_def setCurrentBlockByChildNode_def lastBlock_def blockAt_def
          split: option.splits)
qed

lemma processDrop_resets_flag [simp]: "\<not> isStartedAtEditor (stateOf (processDrop dropEvent st))"
  by (simp add: processDrop_def Let_def setCurrentBlockByChildNode_def stateOf_def
        split: option.splits)

lemma processDrop_deletes_only_if:
  "ExecCommandDelete \<in> set (newCalls st (stateOf (processDrop dropEvent st)))
     \<Longrightarrow> isAtEditor st \<and> \<not> isCollapsed st \<and> isStartedAtEditor st"
  by (auto simp: processDrop_def Let_def setCurrentBlockByChildNode_def newCalls_def stateOf_def
        split: option.splits prod.splits if_splits)

text \<open>
  Claim C7: for every drop event the default browser handling is suppressed, the
  drop-target flag is cleared on every block, the dragged selection is deleted first
  exactly when the drag originated internally with a non-collapsed selection anchored in
  the editor, the drop target block is resolved from the event target with a fallback to
  the last block when no block owns the target, the caret is placed at the end of that
  block, and only then is the payload handed to the import pipeline.

  The block sequence is never empty and its blocks are unique by identity. The calls the
  handler makes are, in this order: \<^verbatim>\<open>preventDefault\<close>, the deletion when its
  condition holds, the placing of the caret at the end of the target block, and the
  hand-over of the payload. The text of the blocks is not touched by the handler itself.
\<close>

theorem processDrop_sequence:
  assumes "uniqueIds st" and "blocks st \<noteq> []"
  shows "\<exists>st'. processDrop dropEvent st = Returned st'
     \<and> newCalls st st' =
          PreventDefault #
          (if isAtEditor st \<and> \<not> isCollapsed st \<and> isStartedAtEditor st
           then [ExecCommandDelete] else []) @
          [CaretSetToBlock (bid (blocks st ! dropTargetIndex st dropEvent)) END,
           ProcessDataTransfer (dataTransfer dropEvent) True]
     \<and> list_all (\<lambda>b. \<not> dropTarget b) (blocks st')
     \<and> map inputs (blocks st') = map inputs (blocks st)
     \<and> currentBlockIndex st' = int (dropTargetIndex st dropEvent)
     \<and> (inputs (blocks st ! dropTargetIndex st dropEvent) \<noteq> [] \<longrightarrow>
          caret st' =
            Some (bid (blocks st ! dropTargetIndex st dropEvent),
                  length (inputs (blocks st ! dropTargetIndex st dropEvent)) - 1,
                  length (last (inputs (blocks st ! dropTargetIndex st dropEvent)))))"
proof -
  let ?k = "dropTargetIndex st dropEvent"
  let ?bs = "map (\<lambda>b. b\<lparr>dropTarget := False\<rparr>) (blocks st)"
  define S where "S = (if isAtEditor st \<and> \<not> isCollapsed st \<and> isStartedAtEditor st
             then emit ExecCommandDelete ((emit PreventDefault st)\<lparr>blocks := ?bs\<rparr>)
             else (emit PreventDefault st)\<lparr>blocks := ?bs\<rparr>)
              \<lparr>isStartedAtEditor := False, currentBlockIndex := int ?k\<rparr>"
  define T where "T = setToBlock S (?bs ! ?k) END"
  have d: "distinct (map bid (blocks st))"
    using assms(1) by (simp add: uniqueIds_def)
  have k: "?k < length (blocks st)"
    and r: "processDrop dropEvent st =
              Returned (emit (ProcessDataTransfer (dataTransfer dropEvent) True) T)"
    using processDrop_resolved [OF d assms(2)] by (simp_all only: T_def S_def)
  have bsS: "blocks S = ?bs" and curS: "currentBlockIndex S = int ?k"
    and callsS: "calls S = calls st @ PreventDefault #
          (if isAtEditor st \<and> \<not> isCollapsed st \<and> isStartedAtEditor st
           then [ExecCommandDelete] else [])"
    by (simp_all add: S_def)
  have nth: "?bs ! ?k = (blocks st ! ?k)\<lparr>dropTarget := False\<rparr>"
    using k by simp
  have "indexOf (blocks st) (bid (blocks st ! ?k)) = Some ?k"
    using d k by (rule indexOf_nth)
  then have idx: "indexOf (blocks S) (bid (?bs ! ?k)) = Some ?k"
    by (simp only: bsS nth indexOf_clear) simp
  have inp: "inputs (blocks S ! ?k) = inputs (blocks st ! ?k)"
    by (simp only: bsS nth) simp
  have c1: "calls T = calls S @ [CaretSetToBlock (bid (blocks st ! ?k)) END]"
    by (simp only: T_def setToBlock_calls nth) simp
  have c2: "map inputs (blocks T) = map inputs (blocks st)"
    using setToBlock_maps(1) [OF idx] by (simp only: bsS T_def) (simp add: comp_def)
  have c3: "list_all (\<lambda>b. \<not> dropTarget b) (blocks T)"
    using setToBlock_maps(3) [OF idx]
    by (simp only: no_dropTarget_conv bsS T_def) (auto simp: comp_def)
  have c4: "currentBlockIndex T = int ?k"
  proof (cases "inputs (blocks S ! ?k) = []")
    case True
    from setToBlock_END(2) [OF idx True] curS show ?thesis by (simp only: T_def)
  next
    case False
    from setToBlock_END(1) [OF idx False] show ?thesis by (simp only: T_def)
  qed
  have c5: "inputs (blocks st ! ?k) \<noteq> [] \<longrightarrow>
          caret T = Some (bid (blocks st ! ?k), length (inputs (blocks st ! ?k)) - 1,
                           length (last (inputs (blocks st ! ?k))))"
  proof
    assume "inputs (blocks st ! ?k) \<noteq> []"
    then have ne: "inputs (blocks S ! ?k) \<noteq> []"
      by (simp only: inp not_False_eq_True)
    from setToBlock_END(3) [OF idx ne]
    show "caret T = Some (bid (blocks st ! ?k), length (inputs (blocks st ! ?k)) - 1,
                           length (last (inputs (blocks st ! ?k))))"
      by (simp only: inp nth T_def) simp
  qed
  show ?thesis
    using c2 c3 c4 c5
    by (intro exI [of _ "emit (ProcessDataTransfer (dataTransfer dropEvent) True) T"])
       (simp add: r c1 callsS newCalls_def)
qed

theorem processDrop_sequence_witness:
  "uniqueIds draggedInside \<and> blocks draggedInside \<noteq> []
   \<and> dropTargetIndex draggedInside dropOutside = 1
   \<and> newCalls draggedInside (stateOf (processDrop dropOutside draggedInside))
       = [PreventDefault, ExecCommandDelete, CaretSetToBlock 1 END,
          ProcessDataTransfer ''payload'' True]
   \<and> caret (stateOf (processDrop dropOutside draggedInside)) = Some (1, 0, 2)"
  using processDrop_sequence [of draggedInside dropOutside]
  by (auto simp: draggedInside_def dropOutside_def sample_defs uniqueIds_def dropTargetIndex_def
        stateOf_def)

text \<open>
  Claim C9: on every drop event the payload handed to the content import pipeline is
  passed with the internal-drop flag set to true, whether the drag began inside the
  editor or came from outside. The state is arbitrary, and so is its
  \<open>isStartedAtEditor\<close>: with a non-empty block sequence the handler returns; whenever
  it returns its last call is the hand-over of the payload of the event with the flag
  true; and it makes no hand-over with another payload or with the flag false.
\<close>

theorem processDrop_passes_internal_flag:
  "(blocks st \<noteq> [] \<longrightarrow> (\<exists>st'. processDrop dropEvent st = Returned st'))
   \<and> (\<forall>st'. processDrop dropEvent st = Returned st' \<longrightarrow>
        calls st' \<noteq> [] \<and> last (calls st') = ProcessDataTransfer (dataTransfer dropEvent) True)
   \<and> (\<forall>d f. ProcessDataTransfer d f \<in> set (newCalls st (stateOf (processDrop dropEvent st)))
          \<longrightarrow> d = dataTransfer dropEvent \<and> f)"
proof (intro conjI)
  show "blocks st \<noteq> [] \<longrightarrow> (\<exists>st'. processDrop dropEvent st = Returned st')"
    by (simp add: processDrop_returns)
next
  show "\<forall>st'. processDrop dropEvent st = Returned st' \<longrightarrow>
        calls st' \<noteq> [] \<and> last (calls st') = ProcessDataTransfer (dataTransfer dropEvent) True"
    by (auto simp: processDrop_def Let_def setCurrentBlockByChildNode_def
        split: option.splits prod.splits if_splits)
next
  show "\<forall>d f. ProcessDataTransfer d f \<in> set (newCalls st (stateOf (processDrop dropEvent st)))
          \<longrightarrow> d = dataTransfer dropEvent \<and> f"
    by (auto simp: processDrop_def Let_def setCurrentBlockByChildNode_def newCalls_def stateOf_def
        split: option.splits prod.splits if_splits)
qed

theorem processDrop_passes_internal_flag_witness:
  "blocks draggedInside \<noteq> []
   \<and> isStartedAtEditor draggedInside
   \<and> last (calls (stateOf (processDrop dropOutside draggedInside)))
       = ProcessDataTransfer ''payload'' True
   \<and> \<not> isStartedAtEditor (docAbCd 0 None)
   \<and> last (calls (stateOf (processDrop dropOutside (docAbCd 0 None))))
       = ProcessDataTransfer ''payload'' True"
  using processDrop_passes_internal_flag [of draggedInside dropOutside]
    processDrop_passes_internal_flag [of "docAbCd 0 None" dropOutside]
  by (auto simp: draggedInside_def dropOutside_def drop_defs sample_defs read_defs caret_defs
        stateOf_def emit_def Let_def)

section \<open>The internal-drag flag\<close>

lemma fire_flag:
  "isStartedAtEditor (fire st (a, c, e)) =
     (case e of DragStart \<Rightarrow> (a \<and> \<not> c) \<or> isStartedAtEditor st
      | DragOver x \<Rightarrow> isStartedAtEditor st
      | Drop x \<Rightarrow> False)"
  by (cases e)
     (auto simp: processDragStart_def inlineToolbarClose_def processDragOver_def emit_def)

lemma run_snoc: "run st (steps @ [s]) = fire (run st steps) s"
  by (simp add: run_def)

lemma run_flag:
  "isStartedAtEditor (run st steps) \<Longrightarrow> \<not> isStartedAtEditor st \<Longrightarrow>
     \<exists>pre post. steps = pre @ [(True, False, DragStart)] @ post
        \<and> list_all (\<lambda>x. \<not> isDrop x) post"
proof (induction steps rule: rev_induct)
  case Nil
  then show ?case by (simp add: run_def)
next
  case (snoc s steps)
  obtain a c e where s: "s = (a, c, e)"
    by (cases s)
  from snoc.prems(1) have "isStartedAtEditor (fire (run st steps) (a, c, e))"
    by (simp add: run_snoc s)
  then have f: "case e of DragStart \<Rightarrow> (a \<and> \<not> c) \<or> isStartedAtEditor (run st steps)
                | DragOver x \<Rightarrow> isStartedAtEditor (run st steps)
                | Drop x \<Rightarrow> False"
    by (simp only: fire_flag)
  show ?case
  proof (cases "isStartedAtEditor (run st steps)")
    case True
    with snoc.IH snoc.prems(2) obtain pre post
      where p: "steps = pre @ [(True, False, DragStart)] @ post"
        and q: "list_all (\<lambda>x. \<not> isDrop x) post"
      by blast
    from f have "\<not> isDrop s"
      by (cases e) (simp_all add: s isDrop_def)
    with p q have "steps @ [s] = pre @ [(True, False, DragStart)] @ (post @ [s])
        \<and> list_all (\<lambda>x. \<not> isDrop x) (post @ [s])"
      by simp
    then show ?thesis by blast
  next
    case False
    with f have "s = (True, False, DragStart)"
      by (cases e) (simp_all add: s)
    then have "steps @ [s] = steps @ [(True, False, DragStart)] @ []
        \<and> list_all (\<lambda>x. \<not> isDrop x) []"
      by simp
    then show ?thesis by blast
  qed
qed

lemma deletesSelection_flag: "deletesSelection st s \<Longrightarrow> isStartedAtEditor st"
proof -
  assume a: "deletesSelection st s"
  obtain at c e where s: "s = (at, c, e)"
    by (cases s)
  from a obtain x where e: "e = Drop x"
    by (cases e) (simp_all add: deletesSelection_def isDrop_def s)
  from a have "ExecCommandDelete \<in> set (newCalls (withSelection st at c)
        (stateOf (processDrop x (withSelection st at c))))"
    by (simp add: deletesSelection_def s e)
  then have "isStartedAtEditor (withSelection st at c)"
    by (blast dest: processDrop_deletes_only_if)
  then show ?thesis by simp
qed

text \<open>
  Claim C10: the internal-drag flag is set only by a drag-start event occurring while a
  non-collapsed selection is anchored inside the editor, and is reset to false by every
  drop; hence the delete branch of the drop handler never executes unless such a
  drag-start has occurred since the previous drop.

  The flag is a private field of the module, and the steps are the three listeners the
  module binds. A step that raises the flag is a drag-start with the selection in the
  editor and not collapsed; after a drop step the flag is down; and in a run from a state
  with the flag down, a drop that deletes the selection is preceded by such a drag-start
  with no drop between the two.
\<close>

theorem internal_drag_flag:
  "(isStartedAtEditor (fire st s) \<and> \<not> isStartedAtEditor st \<longrightarrow> s = (True, False, DragStart))
   \<and> (isDrop s \<longrightarrow> \<not> isStartedAtEditor (fire st s))
   \<and> (\<not> isStartedAtEditor st \<and> deletesSelection (run st steps) s \<longrightarrow>
        (\<exists>pre post. steps = pre @ [(True, False, DragStart)] @ post
           \<and> list_all (\<lambda>x. \<not> isDrop x) post))"
proof (intro conjI impI)
  assume "isStartedAtEditor (fire st s) \<and> \<not> isStartedAtEditor st"
  then show "s = (True, False, DragStart)"
    by (cases s; cases "snd (snd s)") (simp_all add: fire_flag)
next
  assume "isDrop s"
  then show "\<not> isStartedAtEditor (fire st s)"
    by (cases s; cases "snd (snd s)") (simp_all add: fire_flag isDrop_def)
next
  assume "\<not> isStartedAtEditor st \<and> deletesSelection (run st steps) s"
  then show "\<exists>pre post. steps = pre @ [(True, False, DragStart)] @ post
           \<and> list_all (\<lambda>x. \<not> isDrop x) post"
    using run_flag deletesSelection_flag by blast
qed

theorem internal_drag_flag_witness:
  "\<not> isStartedAtEditor (docAbCd 0 None)
   \<and> isStartedAtEditor (fire (docAbCd 0 None) (True, False, DragStart))
   \<and> isDrop (True, False, Drop dropOutside)
   \<and> deletesSelection
        (run (docAbCd 0 None) [(True, False, DragStart), (True, False, DragOver dropOutside)])
        (True, False, Drop dropOutside)
   \<and> \<not> isStartedAtEditor
        (fire (run (docAbCd 0 None) [(True, False, DragStart), (True, False, DragOver dropOutside)])
           (True, False, Drop dropOutside))"
  using internal_drag_flag [of "docAbCd 0 None" "(True, False, DragStart)" "[]"]
    internal_drag_flag
      [of "run (docAbCd 0 None) [(True, False, DragStart), (True, False, DragOver dropOutside)]"
          "(True, False, Drop dropOutside)" "[]"]
    internal_drag_flag
      [of "docAbCd 0 None" "(True, False, Drop dropOutside)"
          "[(True, False, DragStart), (True, False, DragOver dropOutside)]"]
  by (simp add: dropOutside_def drop_defs sample_defs read_defs caret_defs stateOf_def emit_def
        Let_def run_def isDrop_def deletesSelection_def newCalls_def)

end
